theory Spec2Isabelle
  imports Main
begin

section \<open>Values of the Go program\<close>

text \<open>
  The embedding follows \<^verbatim>\<open>redis.go\<close>. Go interface values and pointers that may be nil are
  options (\<open>None\<close> is nil); objects that the program reaches through pointers live in
  stores (lists indexed by address, allocation appends), so that "the same instance" is
  equality of addresses. The model is of one thread of execution: \<^verbatim>\<open>r.mutex.Lock()\<close> and
  its deferred \<^verbatim>\<open>Unlock()\<close> in \<^verbatim>\<open>init\<close> then always succeed at once and leave the mutex as
  it was, so the mutex has no field.
\<close>

type_synonym handle = nat
  \<comment> \<open>identity of a non-nil \<^verbatim>\<open>redis.Conn\<close>\<close>
type_synonym conn = "handle option"
  \<comment> \<open>a \<^verbatim>\<open>redis.Conn\<close> interface value\<close>
type_synonym error = "string option"
  \<comment> \<open>a Go \<^verbatim>\<open>error\<close>: \<open>None\<close> is nil\<close>
type_synonym addr = nat

record RedisConn =
  Conn :: conn

type_synonym RedisConn_ptr = "addr option"
  \<comment> \<open>\<^verbatim>\<open>*RedisConn\<close>\<close>
type_synonym Resource = "RedisConn_ptr option"
  \<comment> \<open>\<^verbatim>\<open>vitess_pool.Resource\<close>: the nil interface, or an interface holding a \<^verbatim>\<open>*RedisConn\<close>\<close>

datatype Context = Background | TODO | WithTimeout Context int

datatype DialOption =
    DialPassword string
  | DialDatabase int
  | DialConnectTimeout int
  | DialReadTimeout int
  | DialWriteTimeout int

text \<open>
  \<^verbatim>\<open>poolSetting\<close> is declared in another file of the package; its fields are the four that
  \<^verbatim>\<open>init\<close> and \<^verbatim>\<open>newRedis\<close> read. Durations are nanoseconds.
\<close>

record poolSetting =
  size' :: int
  limit :: int
  idleTimeout :: int
  prefill :: int

record redisSetting =
  address :: string
  password :: string
  database :: int
  connTimeout :: int
  readTimeout :: int
  writeTimeout :: int
  pool_cfg :: poolSetting
  \<comment> \<open>field \<^verbatim>\<open>pool\<close> of \<^verbatim>\<open>redisSetting\<close>\<close>

type_synonym RedisOption = "redisSetting \<Rightarrow> redisSetting"
type_synonym PoolOption = "poolSetting \<Rightarrow> poolSetting"

subsection \<open>Options\<close>

definition WithRedisDatabase :: "int \<Rightarrow> RedisOption" where
  "WithRedisDatabase db = (\<lambda>s. s\<lparr>database := db\<rparr>)"

definition WithRedisConnTimeout :: "int \<Rightarrow> RedisOption" where
  "WithRedisConnTimeout t = (\<lambda>s. s\<lparr>connTimeout := t\<rparr>)"

definition WithRedisReadTimeout :: "int \<Rightarrow> RedisOption" where
  "WithRedisReadTimeout t = (\<lambda>s. s\<lparr>readTimeout := t\<rparr>)"

definition WithRedisWriteTimeout :: "int \<Rightarrow> RedisOption" where
  "WithRedisWriteTimeout t = (\<lambda>s. s\<lparr>writeTimeout := t\<rparr>)"

definition WithRedisPool :: "PoolOption list \<Rightarrow> RedisOption" where
  "WithRedisPool options = (\<lambda>s. s\<lparr>pool_cfg := foldl (\<lambda>p f. f p) (pool_cfg s) options\<rparr>)"

definition Second :: int where
  "Second = 1000000000"

record redisPoolResource =
  config :: redisSetting
  pool :: "nat option"
  \<comment> \<open>\<^verbatim>\<open>*vitess_pool.ResourcePool\<close>: nil, or the address of a pool object\<close>

type_synonym RedisPool = nat
  \<comment> \<open>a non-nil \<^verbatim>\<open>RedisPool\<close> interface value: the address of a \<^verbatim>\<open>redisPoolResource\<close>\<close>

subsection \<open>The logger\<close>

datatype level = InfoLevel | ErrorLevel | PanicLevel

type_synonym field = "string \<times> string"
type_synonym entry = "level \<times> string \<times> field list"

definition zap_Error :: "string \<Rightarrow> field" where
  "zap_Error e = (''error'', e)"

definition zap_String :: "string \<Rightarrow> string \<Rightarrow> field" where
  "zap_String k v = (k, v)"

subsection \<open>Outcomes\<close>

text \<open>
  A call panics (through the logger, in the Go runtime, or with an error value raised by a
  library), returns, or never returns because it waits for something that will not come.
\<close>

datatype panic = ZapPanic string | NilDereference | InterfaceConversion | ErrorPanic string

datatype ('a, 's) result = Panicked panic 's | Returned 'a 's | Blocked 's

section \<open>The state and the two libraries\<close>

text \<open>
  What a dial function, a connection and the pool library can touch: the state \<open>'n\<close> of
  the redigo client and its network, the \<^verbatim>\<open>RedisConn\<close> objects, and the log.
\<close>

record 'n world =
  net :: 'n
  heap :: "RedisConn list"
  logs :: "entry list"

text \<open>
  redigo and the generic resource pool are libraries outside the repository. Their
  operations are parameters of the model, with the Go signatures; the theorems hold for every
  behaviour of them. The constructor of the pool may panic instead of returning a pool, and
  the pool's \<^verbatim>\<open>Get\<close> may wait forever (\<open>None\<close>). \<^verbatim>\<open>Put\<close> has no result in Go and always
  returns here: a \<^verbatim>\<open>Put\<close> that the library answers with a panic is outside the model.
\<close>

record 'n redigo =
  redis_Dial :: "string \<Rightarrow> string \<Rightarrow> DialOption list \<Rightarrow> 'n \<Rightarrow> (conn \<times> error) \<times> 'n"
  conn_Err :: "handle \<Rightarrow> 'n \<Rightarrow> error"
  conn_Close :: "handle \<Rightarrow> 'n \<Rightarrow> error \<times> 'n"
  conn_Do :: "handle \<Rightarrow> string \<Rightarrow> 'n \<Rightarrow> (string \<times> error) \<times> 'n"

type_synonym 'n Factory = "'n world \<Rightarrow> (Resource \<times> error) \<times> 'n world"

record ('n, 'p) vitess_pool =
  NewResourcePool ::
    "'n Factory \<Rightarrow> int \<Rightarrow> int \<Rightarrow> int \<Rightarrow> int \<Rightarrow> 'n world \<Rightarrow> ('p, 'n world) result"
  IsClosed :: "'p \<Rightarrow> bool"
  pool_Get ::
    "'p \<Rightarrow> Context \<Rightarrow> 'n world \<Rightarrow> ((Resource \<times> error) \<times> 'p \<times> 'n world) option"
  pool_Put :: "'p \<Rightarrow> Resource \<Rightarrow> 'n world \<Rightarrow> 'p \<times> 'n world"

record ('n, 'p) state =
  world :: "'n world"
  pools :: "'p list"
  \<comment> \<open>the \<^verbatim>\<open>ResourcePool\<close> objects constructed so far, by address\<close>
  insts :: "redisPoolResource list"
  \<comment> \<open>the \<^verbatim>\<open>redisPoolResource\<close> objects, by address\<close>
  defaultRedis :: "RedisPool option"
  redisMap :: "string \<rightharpoonup> RedisPool"

definition deref :: "'a list \<Rightarrow> nat option \<Rightarrow> 'a option" where
  "deref mem p =
     (case p of None \<Rightarrow> None
      | Some a \<Rightarrow> if a < length mem then Some (mem ! a) else None)"

definition alloc :: "RedisConn \<Rightarrow> 'n world \<Rightarrow> addr \<times> 'n world" where
  "alloc c w = (length (heap w), w\<lparr>heap := heap w @ [c]\<rparr>)"

definition logger_Error :: "string \<Rightarrow> field list \<Rightarrow> 'n world \<Rightarrow> 'n world" where
  "logger_Error msg fs w = w\<lparr>logs := logs w @ [(ErrorLevel, msg, fs)]\<rparr>"

definition logger_Info :: "string \<Rightarrow> 'n world \<Rightarrow> 'n world" where
  "logger_Info msg w = w\<lparr>logs := logs w @ [(InfoLevel, msg, [])]\<rparr>"

definition logger_Panic ::
  "string \<Rightarrow> field list \<Rightarrow> ('n, 'p) state \<Rightarrow> ('a, ('n, 'p) state) result" where
  "logger_Panic msg fs s =
     Panicked (ZapPanic msg) (s\<lparr>world := (world s)\<lparr>logs := logs (world s) @ [(PanicLevel, msg, fs)]\<rparr>\<rparr>)"

section \<open>The connection wrapper and the dialer\<close>

definition RedisConn_Close ::
  "'n redigo \<Rightarrow> RedisConn_ptr \<Rightarrow> 'n world \<Rightarrow> (unit, 'n world) result" where
  "RedisConn_Close rl rc w =
     (case deref (heap w) rc of
        None \<Rightarrow> Panicked NilDereference w
      | Some c \<Rightarrow>
          (case Conn c of
             None \<Rightarrow> Panicked NilDereference w
           | Some h \<Rightarrow>
               (case conn_Close rl h (net w) of
                  (err, n') \<Rightarrow>
                    (case err of
                       None \<Rightarrow> Returned () (w\<lparr>net := n'\<rparr>)
                     | Some e \<Rightarrow>
                         Returned ()
                           (logger_Error ''yiigo: redis conn closed error'' [zap_Error e]
                              (w\<lparr>net := n'\<rparr>))))))"

definition dial :: "'n redigo \<Rightarrow> redisSetting \<Rightarrow> 'n world \<Rightarrow> (conn \<times> error) \<times> 'n world" where
  "dial rl cfg w =
     (let dialOptions =
            [DialPassword (password cfg),
             DialDatabase (database cfg),
             DialConnectTimeout (connTimeout cfg),
             DialReadTimeout (readTimeout cfg),
             DialWriteTimeout (writeTimeout cfg)]
      in case redis_Dial rl ''tcp'' (address cfg) dialOptions (net w) of
           (res, n') \<Rightarrow> (res, w\<lparr>net := n'\<rparr>))"

section \<open>The pool instance\<close>

text \<open>The closure \<^verbatim>\<open>df\<close> that \<^verbatim>\<open>init\<close> hands to the generic pool.\<close>

definition df :: "'n redigo \<Rightarrow> redisSetting \<Rightarrow> 'n Factory" where
  "df rl cfg w =
     (case dial rl cfg w of
        ((c, err), w') \<Rightarrow>
          if err \<noteq> None then ((None, err), w')
          else (case alloc \<lparr>Conn = c\<rparr> w' of (a, w'') \<Rightarrow> ((Some (Some a), None), w'')))"

text \<open>
  \<open>r_pool s r\<close> follows \<^verbatim>\<open>r.pool\<close> to the pool object: its address and its state, or
  \<open>None\<close> when the pointer is nil (or, which Go excludes, points to no object).
\<close>

definition r_pool :: "('n, 'p) state \<Rightarrow> nat \<Rightarrow> (nat \<times> 'p) option" where
  "r_pool s r =
     (case deref (insts s) (Some r) of
        None \<Rightarrow> None
      | Some inst \<Rightarrow>
          (case pool inst of
             None \<Rightarrow> None
           | Some p \<Rightarrow>
               (case deref (pools s) (Some p) of
                  None \<Rightarrow> None
                | Some po \<Rightarrow> Some (p, po))))"

definition init ::
  "'n redigo \<Rightarrow> ('n, 'p) vitess_pool \<Rightarrow> nat \<Rightarrow> ('n, 'p) state \<Rightarrow> (unit, ('n, 'p) state) result" where
  "init rl pl r s =
     (case deref (insts s) (Some r) of
        None \<Rightarrow> Panicked NilDereference s
      | Some inst \<Rightarrow>
          let construct =
                (case NewResourcePool pl (df rl (config inst))
                        (size' (pool_cfg (config inst))) (limit (pool_cfg (config inst)))
                        (idleTimeout (pool_cfg (config inst))) (prefill (pool_cfg (config inst)))
                        (world s) of
                   Panicked e w' \<Rightarrow> Panicked e (s\<lparr>world := w'\<rparr>)
                 | Returned po w' \<Rightarrow>
                     Returned ()
                       (s\<lparr>world := w',
                          pools := pools s @ [po],
                          insts := (insts s)[r := inst\<lparr>pool := Some (length (pools s))\<rparr>]\<rparr>)
                 | Blocked w' \<Rightarrow> Blocked (s\<lparr>world := w'\<rparr>))
          in (case pool inst of
                None \<Rightarrow> construct
              | Some p \<Rightarrow>
                  (case deref (pools s) (Some p) of
                     None \<Rightarrow> Panicked NilDereference s
                   | Some po \<Rightarrow> if \<not> IsClosed pl po then Returned () s else construct)))"

text \<open>
  \<^verbatim>\<open>Get\<close> in two parts. \<open>Get_checkout\<close> is its first two statements: the lazy
  re-initialisation of a closed pool, then \<^verbatim>\<open>r.pool.Get(ctx)\<close>, whose two results it returns
  with the state they leave. \<open>Get\<close> is the rest: the test of \<^verbatim>\<open>err\<close>, the type assertion,
  and the reconnection of an errored connection.
\<close>

definition Get_checkout ::
  "'n redigo \<Rightarrow> ('n, 'p) vitess_pool \<Rightarrow> nat \<Rightarrow> Context \<Rightarrow> ('n, 'p) state
     \<Rightarrow> (Resource \<times> error, ('n, 'p) state) result" where
  "Get_checkout rl pl r ctx s =
     (case r_pool s r of
        None \<Rightarrow> Panicked NilDereference s
      | Some (p0, po0) \<Rightarrow>
          (case (if IsClosed pl po0 then init rl pl r s else Returned () s) of
             Panicked e s' \<Rightarrow> Panicked e s'
           | Returned u s1 \<Rightarrow>
               (case r_pool s1 r of
                  None \<Rightarrow> Panicked NilDereference s1
                | Some (p, po) \<Rightarrow>
                    (case pool_Get pl po ctx (world s1) of
                       None \<Rightarrow> Blocked s1
                     | Some (res, po', w2) \<Rightarrow>
                         Returned res (s1\<lparr>world := w2, pools := (pools s1)[p := po']\<rparr>)))
           | Blocked s' \<Rightarrow> Blocked s'))"

definition Get ::
  "'n redigo \<Rightarrow> ('n, 'p) vitess_pool \<Rightarrow> nat \<Rightarrow> Context \<Rightarrow> ('n, 'p) state
     \<Rightarrow> (RedisConn_ptr \<times> error, ('n, 'p) state) result" where
  "Get rl pl r ctx s =
     (case Get_checkout rl pl r ctx s of
        Panicked e s' \<Rightarrow> Panicked e s'
      | Returned (resource, err) s2 \<Rightarrow>
          if err \<noteq> None then
            (case alloc \<lparr>Conn = None\<rparr> (world s2) of
               (a, w3) \<Rightarrow> Returned (Some a, err) (s2\<lparr>world := w3\<rparr>))
          else
            (case resource of
               None \<Rightarrow> Panicked InterfaceConversion s2
             | Some rc \<Rightarrow>
                 (case deref (heap (world s2)) rc of
                    None \<Rightarrow> Panicked NilDereference s2
                  | Some c \<Rightarrow>
                      (case Conn c of
                         None \<Rightarrow> Panicked NilDereference s2
                       | Some h \<Rightarrow>
                           if conn_Err rl h (net (world s2)) \<noteq> None then
                             (case dial rl (config (insts s2 ! r)) (world s2) of
                                ((cn, err'), w3) \<Rightarrow>
                                  if err' \<noteq> None then
                                    (case r_pool s2 r of
                                       None \<Rightarrow> Panicked NilDereference (s2\<lparr>world := w3\<rparr>)
                                     | Some (p, po) \<Rightarrow>
                                         (case pool_Put pl po (Some rc) w3 of
                                            (po', w4) \<Rightarrow>
                                              Returned (rc, err')
                                                (s2\<lparr>world := w4, pools := (pools s2)[p := po']\<rparr>)))
                                  else
                                    (case RedisConn_Close rl rc w3 of
                                       Panicked e w4 \<Rightarrow> Panicked e (s2\<lparr>world := w4\<rparr>)
                                     | Returned u w4 \<Rightarrow>
                                         (case alloc \<lparr>Conn = cn\<rparr> w4 of
                                            (a, w5) \<Rightarrow>
                                              Returned (Some a, None) (s2\<lparr>world := w5\<rparr>))
                                     | Blocked w4 \<Rightarrow> Blocked (s2\<lparr>world := w4\<rparr>)))
                           else Returned (rc, None) s2)))
      | Blocked s' \<Rightarrow> Blocked s')"

definition Put ::
  "('n, 'p) vitess_pool \<Rightarrow> nat \<Rightarrow> RedisConn_ptr \<Rightarrow> ('n, 'p) state \<Rightarrow> (unit, ('n, 'p) state) result" where
  "Put pl r cn s =
     (case r_pool s r of
        None \<Rightarrow> Panicked NilDereference s
      | Some (p, po) \<Rightarrow>
          (case pool_Put pl po (Some cn) (world s) of
             (po', w') \<Rightarrow> Returned () (s\<lparr>world := w', pools := (pools s)[p := po']\<rparr>)))"

section \<open>Construction, bootstrap and the registry\<close>

definition default_setting :: "string \<Rightarrow> redisSetting" where
  \<comment> \<open>the struct literal that \<^verbatim>\<open>newRedis\<close> starts from; fields it leaves out have Go's zero value\<close>
  "default_setting addr =
     \<lparr>address = addr, password = '''', database = 0,
      connTimeout = 10 * Second, readTimeout = 10 * Second, writeTimeout = 10 * Second,
      pool_cfg = \<lparr>size' = 10, limit = 0, idleTimeout = 60 * Second, prefill = 0\<rparr>\<rparr>"

definition apply_options :: "redisSetting \<Rightarrow> RedisOption list \<Rightarrow> redisSetting" where
  \<comment> \<open>the loop \<^verbatim>\<open>for _, f := range options { f(rp.config) }\<close>\<close>
  "apply_options cfg options = foldl (\<lambda>c f. f c) cfg options"

text \<open>
  When \<^verbatim>\<open>rp.init()\<close> does not return, \<^verbatim>\<open>newRedis\<close> has neither returned \<^verbatim>\<open>rp\<close> nor stored
  it anywhere: nothing refers to the instance, and it leaves the store of instances.
\<close>

definition newRedis ::
  "'n redigo \<Rightarrow> ('n, 'p) vitess_pool \<Rightarrow> string \<Rightarrow> RedisOption list \<Rightarrow> ('n, 'p) state
     \<Rightarrow> (RedisPool, ('n, 'p) state) result" where
  "newRedis rl pl addr options s =
     (let cfg1 = apply_options (default_setting addr) options;
          cfg2 = (if limit (pool_cfg cfg1) < size' (pool_cfg cfg1)
                  then cfg1\<lparr>pool_cfg := (pool_cfg cfg1)\<lparr>limit := size' (pool_cfg cfg1)\<rparr>\<rparr>
                  else cfg1);
          rp = length (insts s);
          s0 = s\<lparr>insts := insts s @ [\<lparr>config = cfg2, pool = None\<rparr>]\<rparr>
      in case init rl pl rp s0 of
           Panicked e s' \<Rightarrow> Panicked e (s'\<lparr>insts := insts s\<rparr>)
         | Returned u s1 \<Rightarrow> Returned rp s1
         | Blocked s' \<Rightarrow> Blocked (s'\<lparr>insts := insts s\<rparr>))"

definition initRedis ::
  "'n redigo \<Rightarrow> ('n, 'p) vitess_pool \<Rightarrow> string \<Rightarrow> string \<Rightarrow> string \<Rightarrow> RedisOption list
     \<Rightarrow> ('n, 'p) state \<Rightarrow> (unit, ('n, 'p) state) result" where
  "initRedis rl pl Default name addr options s =
     (case newRedis rl pl addr options s of
        Panicked e s' \<Rightarrow> Panicked e s'
      | Blocked s' \<Rightarrow> Blocked s'
      | Returned rp s1 \<Rightarrow>
          (case Get rl pl rp TODO s1 of
             Panicked e s' \<Rightarrow> Panicked e s'
           | Blocked s' \<Rightarrow> Blocked s'
           | Returned (cn, err) s2 \<Rightarrow>
               (case err of
                  Some e \<Rightarrow>
                    logger_Panic ''yiigo: redis init error'' [zap_String ''name'' name, zap_Error e] s2
                | None \<Rightarrow>
                    (case deref (heap (world s2)) cn of
                       None \<Rightarrow> Panicked NilDereference s2
                     | Some c \<Rightarrow>
                         (case Conn c of
                            None \<Rightarrow> Panicked NilDereference s2
                          | Some h \<Rightarrow>
                              (case conn_Do rl h ''PING'' (net (world s2)) of
                                 ((reply, err'), n3) \<Rightarrow>
                                   let s3 = s2\<lparr>world := (world s2)\<lparr>net := n3\<rparr>\<rparr> in
                                   (case err' of
                                      Some e \<Rightarrow>
                                        (case RedisConn_Close rl cn (world s3) of
                                           Panicked e' w4 \<Rightarrow> Panicked e' (s3\<lparr>world := w4\<rparr>)
                                         | Blocked w4 \<Rightarrow> Blocked (s3\<lparr>world := w4\<rparr>)
                                         | Returned u w4 \<Rightarrow>
                                             logger_Panic ''yiigo: redis init error''
                                               [zap_String ''name'' name, zap_Error e]
                                               (s3\<lparr>world := w4\<rparr>))
                                    | None \<Rightarrow>
                                        (case Put pl rp cn s3 of
                                           Panicked e' s' \<Rightarrow> Panicked e' s'
                                         | Blocked s' \<Rightarrow> Blocked s'
                                         | Returned u s4 \<Rightarrow>
                                             let s5 = (if name = Default
                                                       then s4\<lparr>defaultRedis := Some rp\<rparr>
                                                       else s4);
                                                 s6 = s5\<lparr>redisMap := (redisMap s5)(name \<mapsto> rp)\<rparr>
                                             in Returned ()
                                                  (s6\<lparr>world :=
                                                        logger_Info (''yiigo: redis.'' @ name @ '' is OK'')
                                                          (world s6)\<rparr>)))))))))"

definition Redis ::
  "string \<Rightarrow> string list \<Rightarrow> ('n, 'p) state \<Rightarrow> (RedisPool, ('n, 'p) state) result" where
  "Redis Default name s =
     (if length name = 0 \<or> name ! 0 = Default then
        (case defaultRedis s of
           None \<Rightarrow>
             logger_Panic (''yiigo: unknown redis.'' @ Default @ '' (forgotten configure?)'') [] s
         | Some rp \<Rightarrow> Returned rp s)
      else
        (case redisMap s (name ! 0) of
           None \<Rightarrow>
             logger_Panic (''yiigo: unknown redis.'' @ name ! 0 @ '' (forgotten configure?)'') [] s
         | Some v \<Rightarrow> Returned v s))"

section \<open>A sequential double of the two libraries\<close>

text \<open>
  Used to run the model on concrete inputs. The redigo double keeps the error state of
  every connection dialed so far (a handle is an index). Dialing and commands succeed
  exactly when the store is up; a failed command leaves its error on the connection; a
  connection with an error answers every command and \<^verbatim>\<open>Close\<close> with that error, and \<^verbatim>\<open>Close\<close>
  of a healthy connection leaves the error \<^verbatim>\<open>redigo: closed\<close> on it.
\<close>

definition conn_state :: "error list \<Rightarrow> handle \<Rightarrow> error" where
  "conn_state n h = (if h < length n then n ! h else None)"

definition sim_redigo :: "bool \<Rightarrow> (error list) redigo" where
  "sim_redigo up =
     \<lparr>redis_Dial = (\<lambda>network addr opts n.
         if up then ((Some (length n), None), n @ [None])
         else ((None, Some ''connection refused''), n)),
      conn_Err = (\<lambda>h n. conn_state n h),
      conn_Close = (\<lambda>h n.
         case conn_state n h of
           None \<Rightarrow> (None, n[h := Some ''redigo: closed''])
         | Some e \<Rightarrow> (Some e, n)),
      conn_Do = (\<lambda>h cmd n.
         case conn_state n h of
           None \<Rightarrow>
             if up then ((''PONG'', None), n) else (('''', Some ''EOF''), n[h := Some ''EOF''])
         | Some e \<Rightarrow> (('''', Some e), n))\<rparr>"

text \<open>
  The pool double follows the generic pool on one thread. The pool is a first-in
  first-out queue of slots, \<open>capacity\<close> of them at first, all empty (\<open>None\<close>);
  \<^verbatim>\<open>NewResourcePool\<close> panics when the capacity or the limit is not positive or the capacity
  exceeds the limit. \<^verbatim>\<open>Get\<close> takes the slot at the head of the queue: an empty slot is filled
  by the factory and, when the factory fails, goes back to the end of the queue while the
  error is returned. With no slot in the queue \<^verbatim>\<open>Get\<close> waits: it returns the time-out error
  when the context ends, and never returns when the context has no end; a context that
  has ended already gets the time-out error at once. \<^verbatim>\<open>Put\<close> appends a slot to the queue.
  A closed pool has capacity 0 and no slot, and \<^verbatim>\<open>Get\<close> returns the closed-pool error.
  A non-zero \<^verbatim>\<open>prefill\<close> makes the constructor get and put back one resource per slot.
  Two things are left out: the timer that closes idle resources, which runs beside the
  program, and the panic of \<^verbatim>\<open>Put\<close> onto a full or closed pool, which the type of \<^verbatim>\<open>Put\<close>
  cannot express (the double leaves such a pool as it is).
\<close>

fun expired :: "Context \<Rightarrow> bool" where
  "expired Background = False"
| "expired TODO = False"
| "expired (WithTimeout parent d) = (d \<le> 0 \<or> expired parent)"

fun bounded :: "Context \<Rightarrow> bool" where
  "bounded Background = False"
| "bounded TODO = False"
| "bounded (WithTimeout parent d) = True"

record 'n sim_pool =
  factory :: "'n Factory"
  capacity :: int
  maxCap :: int
  resources :: "Resource list"

definition sim_Get ::
  "'n sim_pool \<Rightarrow> Context \<Rightarrow> 'n world \<Rightarrow> ((Resource \<times> error) \<times> 'n sim_pool \<times> 'n world) option" where
  "sim_Get po ctx w =
     (if expired ctx then Some ((None, Some ''resource pool timed out''), po, w)
      else
        (case resources po of
           [] \<Rightarrow>
             if capacity po = 0 then Some ((None, Some ''resource pool is closed''), po, w)
             else if bounded ctx then Some ((None, Some ''resource pool timed out''), po, w)
             else None
         | slot # rest \<Rightarrow>
             (case slot of
                None \<Rightarrow>
                  (case factory po w of
                     ((res, err), w') \<Rightarrow>
                       if err \<noteq> None
                       then Some ((None, err), po\<lparr>resources := rest @ [None]\<rparr>, w')
                       else Some ((res, None), po\<lparr>resources := rest\<rparr>, w'))
              | Some x \<Rightarrow> Some ((Some x, None), po\<lparr>resources := rest\<rparr>, w))))"

definition sim_Put :: "'n sim_pool \<Rightarrow> Resource \<Rightarrow> 'n world \<Rightarrow> 'n sim_pool \<times> 'n world" where
  "sim_Put po res w =
     (if capacity po \<noteq> 0 \<and> int (length (resources po)) < maxCap po
      then (po\<lparr>resources := resources po @ [res]\<rparr>, w)
      else (po, w))"

fun sim_prefill :: "nat \<Rightarrow> 'n sim_pool \<Rightarrow> 'n world \<Rightarrow> 'n sim_pool \<times> 'n world" where
  "sim_prefill 0 po w = (po, w)"
| "sim_prefill (Suc k) po w =
     (case sim_Get po (WithTimeout TODO (30 * Second)) w of
        None \<Rightarrow> (po, w)
      | Some ((res, err), po', w') \<Rightarrow>
          if err \<noteq> None then sim_prefill k po' w'
          else (case sim_Put po' res w' of (po'', w'') \<Rightarrow> sim_prefill k po'' w''))"

definition sim_NewResourcePool ::
  "'n Factory \<Rightarrow> int \<Rightarrow> int \<Rightarrow> int \<Rightarrow> int \<Rightarrow> 'n world \<Rightarrow> ('n sim_pool, 'n world) result" where
  "sim_NewResourcePool f cap maxcap idleT prefillN w =
     (if cap \<le> 0 \<or> maxcap \<le> 0 \<or> cap > maxcap
      then Panicked (ErrorPanic ''invalid/out of range capacity'') w
      else
        let po = \<lparr>factory = f, capacity = cap, maxCap = maxcap,
                  resources = replicate (nat cap) None\<rparr>
        in if prefillN = 0 then Returned po w
           else if prefillN < 0 then Panicked (ErrorPanic ''makechan: size out of range'') w
           else (case sim_prefill (nat cap) po w of (po', w') \<Rightarrow> Returned po' w'))"

definition sim_vitess :: "('n, 'n sim_pool) vitess_pool" where
  "sim_vitess =
     \<lparr>NewResourcePool = sim_NewResourcePool,
      IsClosed = (\<lambda>po. capacity po = 0),
      pool_Get = sim_Get,
      pool_Put = sim_Put\<rparr>"

definition start :: "'n \<Rightarrow> ('n, 'p) state" where
  \<comment> \<open>the process before any bootstrap: no object allocated, the registry empty\<close>
  "start n =
     \<lparr>world = \<lparr>net = n, heap = [], logs = []\<rparr>, pools = [], insts = [],
      defaultRedis = None, redisMap = Map.empty\<rparr>"

section \<open>Notions used in the statements\<close>

definition live :: "('n, 'p) vitess_pool \<Rightarrow> ('n, 'p) state \<Rightarrow> nat \<Rightarrow> bool" where
  \<comment> \<open>the generic pool of instance \<open>r\<close> is non-nil and not closed\<close>
  "live pl s r = (case r_pool s r of None \<Rightarrow> False | Some (p, po) \<Rightarrow> \<not> IsClosed pl po)"

definition absent_or_closed :: "('n, 'p) vitess_pool \<Rightarrow> ('n, 'p) state \<Rightarrow> nat \<Rightarrow> bool" where
  \<comment> \<open>\<open>r\<close> is an instance whose \<^verbatim>\<open>pool\<close> field is nil or points to a closed pool\<close>
  "absent_or_closed pl s r =
     (case deref (insts s) (Some r) of
        None \<Rightarrow> False
      | Some inst \<Rightarrow>
          (case pool inst of
             None \<Rightarrow> True
           | Some p \<Rightarrow>
               (case deref (pools s) (Some p) of None \<Rightarrow> False | Some po \<Rightarrow> IsClosed pl po)))"

definition errored :: "'n redigo \<Rightarrow> 'n world \<Rightarrow> RedisConn_ptr \<Rightarrow> bool" where
  \<comment> \<open>\<^verbatim>\<open>rc.Err() != nil\<close>, for a pointer to a wrapper that holds a connection\<close>
  "errored rl w rc =
     (case deref (heap w) rc of
        None \<Rightarrow> False
      | Some c \<Rightarrow> (case Conn c of None \<Rightarrow> False | Some h \<Rightarrow> conn_Err rl h (net w) \<noteq> None))"

definition result_value :: "('a, 's) result \<Rightarrow> 'a option" where
  "result_value x = (case x of Panicked e s \<Rightarrow> None | Returned v s \<Rightarrow> Some v | Blocked s \<Rightarrow> None)"

definition result_state :: "('a, 's) result \<Rightarrow> 's" where
  "result_state x = (case x of Panicked e s \<Rightarrow> s | Returned v s \<Rightarrow> s | Blocked s \<Rightarrow> s)"

definition pools_ok :: "('n, 'p) state \<Rightarrow> bool" where
  \<comment> \<open>every instance has a non-nil \<^verbatim>\<open>pool\<close> that points to a pool object\<close>
  "pools_ok s = (\<forall>r < length (insts s). \<exists>p. pool (insts s ! r) = Some p \<and> p < length (pools s))"

definition extends :: "('n, 'p) state \<Rightarrow> ('n, 'p) state \<Rightarrow> bool" where
  \<comment> \<open>a step that allocates no instance, leaves the registry alone and keeps \<open>pools_ok\<close>\<close>
  "extends s s' \<longleftrightarrow>
     length (insts s') = length (insts s) \<and> redisMap s' = redisMap s
     \<and> defaultRedis s' = defaultRedis s \<and> (pools_ok s \<longrightarrow> pools_ok s')"

text \<open>
  The states that the package's operations can produce. A caller may run \<^verbatim>\<open>initRedis\<close>,
  look a pool up, check a connection out of any instance and return any connection to it;
  between such calls the world outside (the network, the connections, the log) may change
  in any way. A panic is not taken to end the process: the state it leaves is reachable too,
  and so is the state in which a call waits forever.
  The set \<open>N\<close> collects the names whose bootstrap returned.
\<close>

definition returned :: "('a, 's) result \<Rightarrow> bool" where
  "returned x = (case x of Panicked e s \<Rightarrow> False | Returned v s \<Rightarrow> True | Blocked s \<Rightarrow> False)"

inductive reach ::
  "'n redigo \<Rightarrow> ('n, 'p) vitess_pool \<Rightarrow> string \<Rightarrow> string set \<Rightarrow> ('n, 'p) state \<Rightarrow> bool"
  for rl :: "'n redigo" and pl :: "('n, 'p) vitess_pool" and Default :: string
  where
    at_start: "reach rl pl Default {} (start n)"
  | after_initRedis:
      "reach rl pl Default N s \<Longrightarrow> x = initRedis rl pl Default name addr options s \<Longrightarrow>
       reach rl pl Default (if returned x then insert name N else N) (result_state x)"
  | after_Get: "reach rl pl Default N s \<Longrightarrow> reach rl pl Default N (result_state (Get rl pl r ctx s))"
  | after_Put: "reach rl pl Default N s \<Longrightarrow> reach rl pl Default N (result_state (Put pl r cn s))"
  | after_Redis: "reach rl pl Default N s \<Longrightarrow> reach rl pl Default N (result_state (Redis Default name s))"
  | after_world: "reach rl pl Default N s \<Longrightarrow> reach rl pl Default N (s\<lparr>world := w\<rparr>)"

definition registry_ok :: "string \<Rightarrow> string set \<Rightarrow> ('n, 'p) state \<Rightarrow> bool" where
  "registry_ok Default N s \<longleftrightarrow>
     (\<forall>n. (redisMap s n \<noteq> None) = (n \<in> N))
     \<and> ((defaultRedis s \<noteq> None) = (Default \<in> N))
     \<and> (\<forall>n r. redisMap s n = Some r \<longrightarrow> r < length (insts s))
     \<and> (\<forall>r. defaultRedis s = Some r \<longrightarrow> r < length (insts s))"

definition one_conn :: "RedisOption list" where
  \<comment> \<open>the options of a pool of one connection\<close>
  "one_conn = [WithRedisPool [\<lambda>p. p\<lparr>size' := 1\<rparr>]]"

definition low_limit :: "RedisOption list" where
  \<comment> \<open>a limit below the size\<close>
  "low_limit = [WithRedisPool [\<lambda>p. p\<lparr>size' := 20, limit := 5\<rparr>]]"

definition negative_size :: "RedisOption list" where
  \<comment> \<open>a limit below the size, the size not positive\<close>
  "negative_size = [WithRedisPool [\<lambda>p. p\<lparr>size' := - 3, limit := - 7\<rparr>]]"

definition booted :: "(error list, (error list) sim_pool) state" where
  \<comment> \<open>the state after one successful bootstrap of the default instance, with a pool of one
      connection: the probed connection waits in the pool\<close>
  "booted =
     result_state
       (initRedis (sim_redigo True) sim_vitess ''default'' ''default'' ''127.0.0.1:6379'' one_conn
          (start []))"

definition poisoned :: "(error list, (error list) sim_pool) state" where
  \<comment> \<open>the same, after the transport of the pooled connection has reported a fatal error\<close>
  "poisoned = booted\<lparr>world := (world booted)\<lparr>net := [Some ''EOF'']\<rparr>\<rparr>"

definition exhausted :: "(error list, (error list) sim_pool) state" where
  \<comment> \<open>the booted state after a caller has checked the one connection out\<close>
  "exhausted = result_state (Get (sim_redigo True) sim_vitess 0 TODO booted)"

definition torn_down :: "(error list, (error list) sim_pool) state" where
  \<comment> \<open>the booted state after its generic pool has been closed, and its connection with it\<close>
  "torn_down =
     booted\<lparr>world := (world booted)\<lparr>net := [Some ''redigo: closed'']\<rparr>,
            pools := [(pools booted ! 0)\<lparr>capacity := 0, resources := []\<rparr>]\<rparr>"

definition unborn :: "(error list, (error list) sim_pool) state" where
  \<comment> \<open>the state in which \<^verbatim>\<open>newRedis\<close>, given no option, calls \<^verbatim>\<open>init\<close>: an instance whose
      pool is still nil\<close>
  "unborn =
     (start [])
       \<lparr>insts :=
          [\<lparr>config =
              (default_setting ''127.0.0.1:6379'')
                \<lparr>pool_cfg := \<lparr>size' = 10, limit = 10, idleTimeout = 60 * Second, prefill = 0\<rparr>\<rparr>,
            pool = None\<rparr>]\<rparr>"

section \<open>Basic facts\<close>

lemma deref_Some_iff:
  "deref mem (Some a) = (if a < length mem then Some (mem ! a) else None)"
  by (simp add: deref_def)

lemma deref_None [simp]: "deref mem None = None"
  by (simp add: deref_def)

lemma deref_eq_Some:
  "deref mem p = Some x \<longleftrightarrow> (\<exists>a. p = Some a \<and> a < length mem \<and> x = mem ! a)"
  by (auto simp: deref_def split: option.splits)

lemma r_pool_eq_Some:
  "r_pool s r = Some (p, po) \<longleftrightarrow>
     r < length (insts s) \<and> pool (insts s ! r) = Some p \<and> p < length (pools s) \<and> po = pools s ! p"
  by (auto simp: r_pool_def deref_def split: option.splits)

lemma dial_heap: "dial rl cfg w = (res, w') \<Longrightarrow> heap w' = heap w \<and> logs w' = logs w"
  by (auto simp: dial_def Let_def split: prod.splits)

lemma result_state_simps [simp]:
  "result_state (Panicked e s) = s" "result_state (Returned v s) = s" "result_state (Blocked s) = s"
  by (simp_all add: result_state_def)

lemma result_value_simps [simp]:
  "result_value (Panicked e s) = None" "result_value (Returned v s) = Some v"
  "result_value (Blocked s) = None"
  by (simp_all add: result_value_def)

lemmas run_defs =
  initRedis_def newRedis_def init_def Get_def Get_checkout_def Put_def Redis_def r_pool_def
  deref_def df_def dial_def alloc_def RedisConn_Close_def logger_Error_def logger_Info_def
  logger_Panic_def default_setting_def apply_options_def zap_Error_def zap_String_def Let_def
  WithRedisPool_def one_conn_def low_limit_def negative_size_def start_def
  sim_redigo_def conn_state_def sim_vitess_def sim_NewResourcePool_def sim_Get_def sim_Put_def

section \<open>The state machine of \<^verbatim>\<open>init\<close>\<close>

lemma init_live:
  assumes "live pl s r"
  shows "init rl pl r s = Returned () s"
  using assms
  by (auto simp: init_def live_def r_pool_def deref_Some_iff Let_def
           split: prod.splits option.splits if_splits)

lemma init_construct:
  assumes "absent_or_closed pl s r"
  shows "case NewResourcePool pl (df rl (config (insts s ! r)))
                (size' (pool_cfg (config (insts s ! r)))) (limit (pool_cfg (config (insts s ! r))))
                (idleTimeout (pool_cfg (config (insts s ! r))))
                (prefill (pool_cfg (config (insts s ! r)))) (world s) of
           Panicked e w' \<Rightarrow> init rl pl r s = Panicked e (s\<lparr>world := w'\<rparr>)
         | Returned po w' \<Rightarrow>
             init rl pl r s =
               Returned ()
                 (s\<lparr>world := w', pools := pools s @ [po],
                    insts := (insts s)[r := (insts s ! r)\<lparr>pool := Some (length (pools s))\<rparr>]\<rparr>)
         | Blocked w' \<Rightarrow> init rl pl r s = Blocked (s\<lparr>world := w'\<rparr>)"
  using assms
  by (auto simp: init_def absent_or_closed_def deref_Some_iff Let_def
           split: result.splits option.splits if_splits)

lemma init_Returned_cases:
  assumes "init rl pl r s = Returned u s'"
  shows "(live pl s r \<and> s' = s) \<or> (absent_or_closed pl s r \<and> pools s' \<noteq> pools s)"
  using assms
  by (auto simp: init_def live_def r_pool_def absent_or_closed_def deref_Some_iff Let_def
           split: result.splits option.splits if_splits)

lemma absent_or_closed_valid: "absent_or_closed pl s r \<Longrightarrow> r < length (insts s)"
  by (auto simp: absent_or_closed_def deref_Some_iff split: if_splits)

lemma init_constructed:
  assumes "absent_or_closed pl s r" and "init rl pl r s = Returned u s'"
  shows "\<exists>po w'.
           NewResourcePool pl (df rl (config (insts s ! r)))
             (size' (pool_cfg (config (insts s ! r)))) (limit (pool_cfg (config (insts s ! r))))
             (idleTimeout (pool_cfg (config (insts s ! r))))
             (prefill (pool_cfg (config (insts s ! r)))) (world s) = Returned po w'
           \<and> s' = s\<lparr>world := w', pools := pools s @ [po],
                    insts := (insts s)[r := (insts s ! r)\<lparr>pool := Some (length (pools s))\<rparr>]\<rparr>"
  using init_construct[OF assms(1), of rl] assms(2)
  by (auto split: result.splits)

text \<open>
  C4. \<^verbatim>\<open>init\<close> on an instance whose generic pool is live (non-nil and not closed) returns
  with the state as it was: the reference \<^verbatim>\<open>r.pool\<close> is unchanged and no pool is constructed.
  If \<^verbatim>\<open>init\<close> returns having constructed a pool or changed the reference, the pool was absent
  or closed. In that case \<^verbatim>\<open>init\<close> calls the constructor with the sizing of the instance and
  does as the constructor does: when it panics, so does \<^verbatim>\<open>init\<close>; when it returns a pool,
  that one pool is added and \<^verbatim>\<open>r.pool\<close> points to it. When the pools that the constructor
  returns are open, running \<^verbatim>\<open>init\<close> again after it has returned changes nothing.
\<close>

theorem init_constructs_only_when_absent_or_closed:
  "(live pl s r \<longrightarrow> init rl pl r s = Returned () s)
   \<and> (\<forall>s'. init rl pl r s = Returned () s'
            \<and> (pools s' \<noteq> pools s \<or> pool (insts s' ! r) \<noteq> pool (insts s ! r))
          \<longrightarrow> absent_or_closed pl s r)
   \<and> (absent_or_closed pl s r \<longrightarrow>
        (case NewResourcePool pl (df rl (config (insts s ! r)))
                (size' (pool_cfg (config (insts s ! r)))) (limit (pool_cfg (config (insts s ! r))))
                (idleTimeout (pool_cfg (config (insts s ! r))))
                (prefill (pool_cfg (config (insts s ! r)))) (world s) of
           Panicked e w' \<Rightarrow> init rl pl r s = Panicked e (s\<lparr>world := w'\<rparr>)
         | Returned po w' \<Rightarrow>
             init rl pl r s =
               Returned ()
                 (s\<lparr>world := w', pools := pools s @ [po],
                    insts := (insts s)[r := (insts s ! r)\<lparr>pool := Some (length (pools s))\<rparr>]\<rparr>)
         | Blocked w' \<Rightarrow> init rl pl r s = Blocked (s\<lparr>world := w'\<rparr>)))
   \<and> (\<forall>s'. absent_or_closed pl s r \<and> init rl pl r s = Returned () s' \<longrightarrow>
          length (pools s') = Suc (length (pools s))
          \<and> pool (insts s' ! r) = Some (length (pools s)))
   \<and> ((\<forall>f a b c d w po w'. NewResourcePool pl f a b c d w = Returned po w' \<longrightarrow> \<not> IsClosed pl po)
        \<longrightarrow> (\<forall>s'. init rl pl r s = Returned () s' \<longrightarrow> init rl pl r s' = Returned () s'))"
proof -
  have c1: "live pl s r \<longrightarrow> init rl pl r s = Returned () s"
    by (simp add: init_live)
  have c2: "\<forall>s'. init rl pl r s = Returned () s'
            \<and> (pools s' \<noteq> pools s \<or> pool (insts s' ! r) \<noteq> pool (insts s ! r))
          \<longrightarrow> absent_or_closed pl s r"
    using init_Returned_cases[of rl pl r s "()"] by auto
  have c3: "absent_or_closed pl s r \<longrightarrow>
        (case NewResourcePool pl (df rl (config (insts s ! r)))
                (size' (pool_cfg (config (insts s ! r)))) (limit (pool_cfg (config (insts s ! r))))
                (idleTimeout (pool_cfg (config (insts s ! r))))
                (prefill (pool_cfg (config (insts s ! r)))) (world s) of
           Panicked e w' \<Rightarrow> init rl pl r s = Panicked e (s\<lparr>world := w'\<rparr>)
         | Returned po w' \<Rightarrow>
             init rl pl r s =
               Returned ()
                 (s\<lparr>world := w', pools := pools s @ [po],
                    insts := (insts s)[r := (insts s ! r)\<lparr>pool := Some (length (pools s))\<rparr>]\<rparr>)
         | Blocked w' \<Rightarrow> init rl pl r s = Blocked (s\<lparr>world := w'\<rparr>))"
    using init_construct[of pl s r rl] by blast
  have c4: "\<forall>s'. absent_or_closed pl s r \<and> init rl pl r s = Returned () s' \<longrightarrow>
          length (pools s') = Suc (length (pools s))
          \<and> pool (insts s' ! r) = Some (length (pools s))"
  proof (intro allI impI)
    fix s'
    assume a: "absent_or_closed pl s r \<and> init rl pl r s = Returned () s'"
    then have "r < length (insts s)" by (auto dest: absent_or_closed_valid)
    with a init_constructed[of pl s r rl "()" s']
    show "length (pools s') = Suc (length (pools s))
          \<and> pool (insts s' ! r) = Some (length (pools s))"
      by auto
  qed
  have c5: "(\<forall>f a b c d w po w'. NewResourcePool pl f a b c d w = Returned po w' \<longrightarrow> \<not> IsClosed pl po)
        \<longrightarrow> (\<forall>s'. init rl pl r s = Returned () s' \<longrightarrow> init rl pl r s' = Returned () s')"
  proof (intro allI impI)
    fix s'
    assume opens: "\<forall>f a b c d w po w'. NewResourcePool pl f a b c d w = Returned po w'
                     \<longrightarrow> \<not> IsClosed pl po"
      and ret: "init rl pl r s = Returned () s'"
    from init_Returned_cases[OF ret] show "init rl pl r s' = Returned () s'"
    proof
      assume "live pl s r \<and> s' = s"
      then show ?thesis by (simp add: init_live)
    next
      assume "absent_or_closed pl s r \<and> pools s' \<noteq> pools s"
      then have a: "absent_or_closed pl s r" ..
      from init_constructed[OF a ret] obtain po w' where
        new: "NewResourcePool pl (df rl (config (insts s ! r)))
               (size' (pool_cfg (config (insts s ! r)))) (limit (pool_cfg (config (insts s ! r))))
               (idleTimeout (pool_cfg (config (insts s ! r))))
               (prefill (pool_cfg (config (insts s ! r)))) (world s) = Returned po w'"
        and s': "s' = s\<lparr>world := w', pools := pools s @ [po],
                      insts := (insts s)[r := (insts s ! r)\<lparr>pool := Some (length (pools s))\<rparr>]\<rparr>"
        by blast
      from opens new have "\<not> IsClosed pl po" by blast
      with s' absent_or_closed_valid[OF a] have "live pl s' r"
        by (auto simp: live_def r_pool_def deref_Some_iff)
      then show ?thesis by (rule init_live)
    qed
  qed
  from c1 c2 c3 c4 c5 show ?thesis by (intro conjI)
qed

lemma booted_eval:
  "world booted = \<lparr>net = [None], heap = [\<lparr>Conn = Some 0\<rparr>],
                   logs = [(InfoLevel, ''yiigo: redis.default is OK'', [])]\<rparr>"
  "length (pools booted) = 1"
  "capacity (pools booted ! 0) = 1"
  "maxCap (pools booted ! 0) = 1"
  "resources (pools booted ! 0) = [Some (Some 0)]"
  "length (insts booted) = 1"
  "pool (insts booted ! 0) = Some 0"
  "config (insts booted ! 0) =
     (default_setting ''127.0.0.1:6379'')
       \<lparr>pool_cfg := \<lparr>size' = 1, limit = 1, idleTimeout = 60 * Second, prefill = 0\<rparr>\<rparr>"
  "defaultRedis booted = Some 0"
  "redisMap booted = [''default'' \<mapsto> 0]"
  by (simp_all add: booted_def run_defs)

lemma sim_Get_capacity:
  "sim_Get po ctx w = Some (res, po', w') \<Longrightarrow> capacity po' = capacity po"
  by (auto simp: sim_Get_def split: if_splits list.splits option.splits prod.splits)

lemma sim_Put_capacity: "sim_Put po x w = (po', w') \<Longrightarrow> capacity po' = capacity po"
  by (auto simp: sim_Put_def split: if_splits)

lemma sim_prefill_capacity:
  "sim_prefill k po w = (po', w') \<Longrightarrow> capacity po' = capacity po"
proof (induction k arbitrary: po w)
  case 0
  then show ?case by simp
next
  case (Suc k)
  then show ?case
    by (auto split: option.splits prod.splits if_splits
             dest!: sim_Get_capacity sim_Put_capacity)
qed

lemma sim_pools_open:
  "NewResourcePool sim_vitess f a b c d w = Returned po w' \<Longrightarrow> \<not> IsClosed sim_vitess po"
  by (auto simp: sim_vitess_def sim_NewResourcePool_def Let_def
           split: if_splits prod.splits dest!: sim_prefill_capacity)

theorem init_constructs_only_when_absent_or_closed_witness:
  "live sim_vitess booted 0
   \<and> init (sim_redigo True) sim_vitess 0 booted = Returned () booted
   \<and> absent_or_closed sim_vitess torn_down 0
   \<and> (\<exists>s'. init (sim_redigo True) sim_vitess 0 torn_down = Returned () s'
          \<and> length (pools s') = Suc (length (pools torn_down))
          \<and> pool (insts s' ! 0) = Some (length (pools torn_down))
          \<and> init (sim_redigo True) sim_vitess 0 s' = Returned () s')
   \<and> absent_or_closed sim_vitess unborn 0
   \<and> (\<exists>s'. init (sim_redigo True) sim_vitess 0 unborn = Returned () s'
          \<and> length (pools s') = Suc (length (pools unborn)))"
proof -
  note thm1 = init_constructs_only_when_absent_or_closed[of sim_vitess booted 0 "sim_redigo True"]
  note thm2 = init_constructs_only_when_absent_or_closed[of sim_vitess torn_down 0 "sim_redigo True"]
  note thm3 = init_constructs_only_when_absent_or_closed[of sim_vitess unborn 0 "sim_redigo True"]
  have l: "live sim_vitess booted 0"
    by (simp add: live_def r_pool_def deref_Some_iff booted_eval sim_vitess_def)
  have a: "absent_or_closed sim_vitess torn_down 0"
    by (simp add: torn_down_def absent_or_closed_def deref_Some_iff booted_eval sim_vitess_def)
  have u: "absent_or_closed sim_vitess unborn 0"
    by (simp add: unborn_def absent_or_closed_def deref_Some_iff start_def)
  have o: "\<forall>f a b c d w po w'. NewResourcePool sim_vitess f a b c d w = Returned po w'
             \<longrightarrow> \<not> IsClosed sim_vitess (po :: (error list) sim_pool)"
    using sim_pools_open by blast
  have rt: "\<exists>s'. init (sim_redigo True) sim_vitess 0 torn_down = Returned () s'"
    by (simp add: init_def torn_down_def deref_Some_iff booted_eval sim_vitess_def
          sim_NewResourcePool_def Let_def default_setting_def)
  have ru: "\<exists>s'. init (sim_redigo True) sim_vitess 0 unborn = Returned () s'"
    by (simp add: init_def unborn_def deref_Some_iff start_def sim_vitess_def
          sim_NewResourcePool_def Let_def default_setting_def)
  from thm1 l have 1: "init (sim_redigo True) sim_vitess 0 booted = Returned () booted"
    by blast
  from rt obtain s' where s': "init (sim_redigo True) sim_vitess 0 torn_down = Returned () s'"
    by blast
  from thm2 a s' have 2: "length (pools s') = Suc (length (pools torn_down))"
      "pool (insts s' ! 0) = Some (length (pools torn_down))"
    by blast+
  from thm2 o s' have 3: "init (sim_redigo True) sim_vitess 0 s' = Returned () s'"
    by blast
  from ru obtain s'' where s'': "init (sim_redigo True) sim_vitess 0 unborn = Returned () s''"
    by blast
  from thm3 u s'' have 4: "length (pools s'') = Suc (length (pools unborn))"
    by blast
  from l a u 1 s' 2 3 s'' 4 show ?thesis by blast
qed

section \<open>Checking a connection out\<close>

lemma Get_checkout_r_pool:
  assumes "Get_checkout rl pl r ctx s = Returned res s2"
  shows "\<exists>p po. r_pool s2 r = Some (p, po)"
  using assms
  by (auto simp: Get_checkout_def r_pool_eq_Some
           split: option.splits prod.splits if_splits result.splits)

lemma Get_checkout_asks_pool:
  assumes "r_pool s r = Some (p0, po0)"
    and "(if IsClosed pl po0 then init rl pl r s else Returned () s) = Returned () s1"
    and "r_pool s1 r = Some (p, po)"
    and "pool_Get pl po ctx (world s1) = Some (res, po', w2)"
  shows "Get_checkout rl pl r ctx s = Returned res (s1\<lparr>world := w2, pools := (pools s1)[p := po']\<rparr>)"
  using assms by (simp add: Get_checkout_def)

lemma RedisConn_Close_holds:
  assumes "deref (heap w) rc = Some c" and "Conn c = Some h" and "conn_Close rl h (net w) = (cerr, n')"
  shows "RedisConn_Close rl rc w =
           Returned ()
             (w\<lparr>net := n',
                logs := (case cerr of
                           None \<Rightarrow> logs w
                         | Some e \<Rightarrow> logs w @ [(ErrorLevel, ''yiigo: redis conn closed error'', [zap_Error e])])\<rparr>)"
  using assms by (simp add: RedisConn_Close_def logger_Error_def split: option.splits)

text \<open>The two outcomes of the reconnection of an errored connection.\<close>

lemma Get_reconnect_ok:
  assumes "Get_checkout rl pl r ctx s = Returned (Some rc, None) s2"
    and "deref (heap (world s2)) rc = Some c" and "Conn c = Some h"
    and "conn_Err rl h (net (world s2)) \<noteq> None"
    and "dial rl (config (insts s2 ! r)) (world s2) = ((cn, None), w3)"
  shows "\<exists>cerr n4 w5.
           conn_Close rl h (net w3) = (cerr, n4)
           \<and> Get rl pl r ctx s = Returned (Some (length (heap (world s2))), None) (s2\<lparr>world := w5\<rparr>)
           \<and> net w5 = n4
           \<and> heap w5 = heap (world s2) @ [\<lparr>Conn = cn\<rparr>]
           \<and> logs w5 = (case cerr of
                          None \<Rightarrow> logs (world s2)
                        | Some e \<Rightarrow> logs (world s2)
                            @ [(ErrorLevel, ''yiigo: redis conn closed error'', [zap_Error e])])
           \<and> Some (length (heap (world s2))) \<noteq> rc"
proof -
  obtain cerr n4 where cl: "conn_Close rl h (net w3) = (cerr, n4)"
    by (cases "conn_Close rl h (net w3)")
  from dial_heap[OF assms(5)] have hp: "heap w3 = heap (world s2)" "logs w3 = logs (world s2)"
    by simp_all
  with assms(2) have "deref (heap w3) rc = Some c" by simp
  let ?w5 = "w3\<lparr>net := n4,
                logs := (case cerr of
                           None \<Rightarrow> logs w3
                         | Some e \<Rightarrow> logs w3 @ [(ErrorLevel, ''yiigo: redis conn closed error'', [zap_Error e])]),
                heap := heap w3 @ [\<lparr>Conn = cn\<rparr>]\<rparr>"
  from RedisConn_Close_holds[OF \<open>deref (heap w3) rc = Some c\<close> assms(3) cl]
  have g: "Get rl pl r ctx s =
          Returned (Some (length (heap (world s2))), None) (s2\<lparr>world := ?w5\<rparr>)"
    using assms hp by (simp add: Get_def alloc_def)
  have props: "net ?w5 = n4" "heap ?w5 = heap (world s2) @ [\<lparr>Conn = cn\<rparr>]"
    "logs ?w5 = (case cerr of
                          None \<Rightarrow> logs (world s2)
                        | Some e \<Rightarrow> logs (world s2)
                            @ [(ErrorLevel, ''yiigo: redis conn closed error'', [zap_Error e])])"
    by (simp_all add: hp split: option.splits)
  from assms(2) have "Some (length (heap (world s2))) \<noteq> rc"
    by (auto simp: deref_eq_Some)
  with cl g props show ?thesis by blast
qed

lemma Get_reconnect_fail:
  assumes "Get_checkout rl pl r ctx s = Returned (Some rc, None) s2"
    and "errored rl (world s2) rc"
    and "dial rl (config (insts s2 ! r)) (world s2) = ((cn, Some e), w3)"
  shows "\<exists>p po po' w4.
           r_pool s2 r = Some (p, po) \<and> pool_Put pl po (Some rc) w3 = (po', w4)
           \<and> Get rl pl r ctx s =
               Returned (rc, Some e) (s2\<lparr>world := w4, pools := (pools s2)[p := po']\<rparr>)"
proof -
  obtain p po where rp: "r_pool s2 r = Some (p, po)"
    using Get_checkout_r_pool[OF assms(1)] by blast
  obtain po' w4 where pp: "pool_Put pl po (Some rc) w3 = (po', w4)"
    by (cases "pool_Put pl po (Some rc) w3")
  from assms(2) obtain c h where "deref (heap (world s2)) rc = Some c" "Conn c = Some h"
    "conn_Err rl h (net (world s2)) \<noteq> None"
    by (auto simp: errored_def split: option.splits)
  then have "Get rl pl r ctx s =
               Returned (rc, Some e) (s2\<lparr>world := w4, pools := (pools s2)[p := po']\<rparr>)"
    using assms(1,3) rp pp by (simp add: Get_def)
  with rp pp show ?thesis by blast
qed

text \<open>The three states of the double that the runs below start from, evaluated.\<close>

lemma poisoned_eval:
  "world poisoned = \<lparr>net = [Some ''EOF''], heap = [\<lparr>Conn = Some 0\<rparr>],
                     logs = [(InfoLevel, ''yiigo: redis.default is OK'', [])]\<rparr>"
  "pools poisoned = pools booted" "insts poisoned = insts booted"
  by (simp_all add: poisoned_def booted_eval)

lemma exhausted_eval:
  "world exhausted = world booted"
  "length (pools exhausted) = 1"
  "capacity (pools exhausted ! 0) = 1"
  "resources (pools exhausted ! 0) = []"
  "insts exhausted = insts booted"
  "result_value (Get (sim_redigo True) sim_vitess 0 TODO booted) = Some (Some 0, None)"
  by (simp_all add: exhausted_def booted_def run_defs)

text \<open>
  C9. When the generic pool of the instance, asked by \<^verbatim>\<open>r.pool.Get(ctx)\<close> after the lazy
  re-initialisation, returns an error, \<^verbatim>\<open>Get\<close> returns that error together with a non-nil
  pointer to a wrapper allocated for the occasion, whose \<^verbatim>\<open>Conn\<close> is nil; the pool and the
  world are as the pool's \<^verbatim>\<open>Get\<close> left them, but for the new wrapper.
\<close>

theorem Get_pool_error_gives_empty_wrapper:
  assumes "r_pool s r = Some (p0, po0)"
    and "(if IsClosed pl po0 then init rl pl r s else Returned () s) = Returned () s1"
    and "r_pool s1 r = Some (p, po)"
    and "pool_Get pl po ctx (world s1) = Some ((resource, Some e), po', w2)"
  shows "Get rl pl r ctx s =
           Returned (Some (length (heap w2)), Some e)
             (s1\<lparr>world := w2\<lparr>heap := heap w2 @ [\<lparr>Conn = None\<rparr>]\<rparr>,
                 pools := (pools s1)[p := po']\<rparr>)
         \<and> deref (heap w2 @ [\<lparr>Conn = None\<rparr>]) (Some (length (heap w2))) = Some \<lparr>Conn = None\<rparr>"
  using assms
  by (simp add: Get_def Get_checkout_def alloc_def deref_Some_iff)

theorem Get_pool_error_gives_empty_wrapper_witness:
  "resources (pools exhausted ! 0) = []
   \<and> pool_Get sim_vitess (pools exhausted ! 0) (WithTimeout Background Second) (world exhausted)
       = Some ((None, Some ''resource pool timed out''), pools exhausted ! 0, world exhausted)
   \<and> (\<exists>s'. Get (sim_redigo True) sim_vitess 0 (WithTimeout Background Second) exhausted
               = Returned (Some 1, Some ''resource pool timed out'') s'
          \<and> heap (world s') = [\<lparr>Conn = Some 0\<rparr>, \<lparr>Conn = None\<rparr>]
          \<and> resources (pools s' ! 0) = [])"
proof -
  have rp: "r_pool exhausted 0 = Some (0, pools exhausted ! 0)"
    by (simp add: r_pool_eq_Some exhausted_eval booted_eval)
  have op: "(if IsClosed sim_vitess (pools exhausted ! 0)
             then init (sim_redigo True) sim_vitess 0 exhausted else Returned () exhausted)
            = Returned () exhausted"
    by (simp add: sim_vitess_def exhausted_eval)
  have pg: "pool_Get sim_vitess (pools exhausted ! 0) (WithTimeout Background Second)
              (world exhausted)
            = Some ((None, Some ''resource pool timed out''), pools exhausted ! 0, world exhausted)"
    by (simp add: sim_vitess_def sim_Get_def exhausted_eval Second_def)
  from Get_pool_error_gives_empty_wrapper[OF rp op rp pg] pg
  show ?thesis
    by (simp add: exhausted_eval booted_eval)
qed

text \<open>
  C2. When the connection that the generic pool handed out is errored and dialing the
  replacement fails, \<^verbatim>\<open>Get\<close> puts that connection back into the generic pool of the instance
  (\<^verbatim>\<open>r.pool.Put(rc)\<close>) and returns the dial error as its error result.
\<close>

theorem Get_errored_dial_fails_puts_back:
  assumes "Get_checkout rl pl r ctx s = Returned (Some rc, None) s2"
    and "errored rl (world s2) rc"
    and "dial rl (config (insts s2 ! r)) (world s2) = ((cn, Some e), w3)"
  shows "\<exists>p po po' w4.
           r_pool s2 r = Some (p, po) \<and> pool_Put pl po (Some rc) w3 = (po', w4)
           \<and> Get rl pl r ctx s =
               Returned (rc, Some e) (s2\<lparr>world := w4, pools := (pools s2)[p := po']\<rparr>)"
  using assms by (rule Get_reconnect_fail)

lemma poisoned_checkout:
  "\<exists>s2. Get_checkout rl sim_vitess 0 ctx poisoned = Returned (Some (Some 0), None) s2
        \<and> world s2 = world poisoned \<and> insts s2 = insts poisoned
        \<and> length (pools s2) = 1 \<and> resources (pools s2 ! 0) = []
        \<and> capacity (pools s2 ! 0) = 1 \<and> maxCap (pools s2 ! 0) = 1"
  if "\<not> expired ctx"
proof -
  have rp: "r_pool poisoned 0 = Some (0, pools booted ! 0)"
    by (simp add: r_pool_eq_Some poisoned_eval booted_eval)
  have op: "(if IsClosed sim_vitess (pools booted ! 0)
             then init rl sim_vitess 0 poisoned else Returned () poisoned)
            = Returned () poisoned"
    by (simp add: sim_vitess_def booted_eval)
  have pg: "pool_Get sim_vitess (pools booted ! 0) ctx (world poisoned)
            = Some ((Some (Some 0), None), (pools booted ! 0)\<lparr>resources := []\<rparr>, world poisoned)"
    using that by (simp add: sim_vitess_def sim_Get_def booted_eval)
  from Get_checkout_asks_pool[OF rp op rp pg] show ?thesis
    by (simp add: poisoned_eval booted_eval)
qed

theorem Get_errored_dial_fails_puts_back_witness:
  "errored (sim_redigo False) (world poisoned) (Some 0)
   \<and> resources (pools poisoned ! 0) = [Some (Some 0)]
   \<and> (\<exists>s2. Get_checkout (sim_redigo False) sim_vitess 0 TODO poisoned
              = Returned (Some (Some 0), None) s2
          \<and> resources (pools s2 ! 0) = [])
   \<and> (\<exists>s'. Get (sim_redigo False) sim_vitess 0 TODO poisoned
              = Returned (Some 0, Some ''connection refused'') s'
          \<and> resources (pools s' ! 0) = [Some (Some 0)])"
proof -
  from poisoned_checkout[of TODO "sim_redigo False"] obtain s2 where
    h: "Get_checkout (sim_redigo False) sim_vitess 0 TODO poisoned
          = Returned (Some (Some 0), None) s2"
    and s2: "world s2 = world poisoned" "insts s2 = insts poisoned" "length (pools s2) = 1"
      "resources (pools s2 ! 0) = []" "capacity (pools s2 ! 0) = 1" "maxCap (pools s2 ! 0) = 1"
    by auto
  have e0: "errored (sim_redigo False) (world poisoned) (Some 0)"
    by (simp add: errored_def deref_Some_iff poisoned_eval sim_redigo_def conn_state_def)
  then have e: "errored (sim_redigo False) (world s2) (Some 0)"
    by (simp add: s2)
  have d: "dial (sim_redigo False) (config (insts s2 ! 0)) (world s2)
             = ((None, Some ''connection refused''), world s2)"
    by (simp add: dial_def sim_redigo_def)
  have i0: "resources (pools poisoned ! 0) = [Some (Some 0)]"
    by (simp add: poisoned_eval booted_eval)
  from Get_errored_dial_fails_puts_back[OF h e d] obtain p po po' w4 where
    rp: "r_pool s2 0 = Some (p, po)" and pp: "pool_Put sim_vitess po (Some (Some 0)) (world s2) = (po', w4)"
    and g: "Get (sim_redigo False) sim_vitess 0 TODO poisoned
              = Returned (Some 0, Some ''connection refused'')
                  (s2\<lparr>world := w4, pools := (pools s2)[p := po']\<rparr>)"
    by blast
  from rp have p: "p = 0" "po = pools s2 ! 0"
    by (simp_all add: r_pool_eq_Some s2 poisoned_eval booted_eval)
  from pp p have "resources po' = [Some (Some 0)]"
    by (auto simp: sim_vitess_def sim_Put_def s2)
  with g p s2 have "\<exists>s'. Get (sim_redigo False) sim_vitess 0 TODO poisoned
              = Returned (Some 0, Some ''connection refused'') s'
          \<and> resources (pools s' ! 0) = [Some (Some 0)]"
    by simp
  with e0 i0 h s2 show ?thesis by blast
qed

text \<open>
  C3. When the connection that the generic pool handed out is errored and dialing the
  replacement succeeds, \<^verbatim>\<open>Get\<close> closes the errored connection (logging a close error, if
  any), allocates a new wrapper around the dialed connection, and returns a pointer to it
  with a nil error; the pointer differs from the errored one.
\<close>

theorem Get_errored_dial_succeeds_replaces:
  assumes "Get_checkout rl pl r ctx s = Returned (Some rc, None) s2"
    and "deref (heap (world s2)) rc = Some c" and "Conn c = Some h"
    and "conn_Err rl h (net (world s2)) \<noteq> None"
    and "dial rl (config (insts s2 ! r)) (world s2) = ((cn, None), w3)"
  shows "\<exists>cerr n4 w5.
           conn_Close rl h (net w3) = (cerr, n4)
           \<and> Get rl pl r ctx s = Returned (Some (length (heap (world s2))), None) (s2\<lparr>world := w5\<rparr>)
           \<and> net w5 = n4
           \<and> heap w5 = heap (world s2) @ [\<lparr>Conn = cn\<rparr>]
           \<and> logs w5 = (case cerr of
                          None \<Rightarrow> logs (world s2)
                        | Some e \<Rightarrow> logs (world s2)
                            @ [(ErrorLevel, ''yiigo: redis conn closed error'', [zap_Error e])])
           \<and> Some (length (heap (world s2))) \<noteq> rc"
  using assms by (rule Get_reconnect_ok)

theorem Get_errored_dial_succeeds_replaces_witness:
  "\<exists>s'. Get (sim_redigo True) sim_vitess 0 TODO poisoned = Returned (Some 1, None) s'
        \<and> heap (world s') = [\<lparr>Conn = Some 0\<rparr>, \<lparr>Conn = Some 1\<rparr>]
        \<and> net (world s') = [Some ''EOF'', None]
        \<and> logs (world s') = [(InfoLevel, ''yiigo: redis.default is OK'', []),
                              (ErrorLevel, ''yiigo: redis conn closed error'', [zap_Error ''EOF''])]
        \<and> resources (pools s' ! 0) = []"
proof -
  from poisoned_checkout[of TODO "sim_redigo True"] obtain s2 where
    h: "Get_checkout (sim_redigo True) sim_vitess 0 TODO poisoned
          = Returned (Some (Some 0), None) s2"
    and s2: "world s2 = world poisoned" "insts s2 = insts poisoned" "length (pools s2) = 1"
      "resources (pools s2 ! 0) = []"
    by auto
  note w = s2(1)[unfolded poisoned_eval]
  have c: "deref (heap (world s2)) (Some 0) = Some \<lparr>Conn = Some 0\<rparr>"
    by (simp add: w deref_Some_iff)
  have c': "Conn \<lparr>Conn = Some 0\<rparr> = Some 0"
    by simp
  have e: "conn_Err (sim_redigo True) 0 (net (world s2)) \<noteq> None"
    by (simp add: w sim_redigo_def conn_state_def)
  have d: "dial (sim_redigo True) (config (insts s2 ! 0)) (world s2)
             = ((Some 1, None), (world s2)\<lparr>net := [Some ''EOF'', None]\<rparr>)"
    by (simp add: w dial_def sim_redigo_def)
  have cl: "conn_Close (sim_redigo True) 0 [Some ''EOF'', None] = (Some ''EOF'', [Some ''EOF'', None])"
    by (simp add: sim_redigo_def conn_state_def)
  from Get_errored_dial_succeeds_replaces[OF h c c' e d] cl w s2 show ?thesis
    by auto
qed


section \<open>What the operations leave unchanged\<close>

lemma extends_refl [simp]: "extends s s"
  by (simp add: extends_def)

lemma extends_trans: "extends s s' \<Longrightarrow> extends s' s'' \<Longrightarrow> extends s s''"
  by (simp add: extends_def)

lemma extends_world [simp]: "extends s (s\<lparr>world := w\<rparr>)"
  by (simp add: extends_def pools_ok_def)

lemma extends_world_pools [simp]: "extends s (s\<lparr>world := w, pools := (pools s)[p := po]\<rparr>)"
  by (simp add: extends_def pools_ok_def)

lemma init_extends: "extends s (result_state (init rl pl r s))"
  by (auto simp: init_def extends_def pools_ok_def Let_def deref_Some_iff
             nth_list_update less_Suc_eq
           split: option.splits result.splits)

lemma Get_checkout_extends: "extends s (result_state (Get_checkout rl pl r ctx s))"
proof -
  have e: "extends s (result_state (init rl pl r s))"
    by (rule init_extends)
  have "\<And>s1 w p po. extends s s1 \<Longrightarrow> extends s (s1\<lparr>world := w, pools := (pools s1)[p := po]\<rparr>)"
    by (erule extends_trans) simp
  with e show ?thesis
    by (auto simp: Get_checkout_def split: option.splits prod.splits result.splits)
qed

lemma Get_after_checkout:
  assumes "Get_checkout rl pl r ctx s = Returned res s2"
  shows "extends s2 (result_state (Get rl pl r ctx s))"
  using assms
  by (auto simp: Get_def alloc_def split: option.splits prod.splits result.splits)

lemma Get_extends: "extends s (result_state (Get rl pl r ctx s))"
proof (cases "Get_checkout rl pl r ctx s")
  case (Panicked e s')
  with Get_checkout_extends[of s rl pl r ctx] show ?thesis
    by (simp add: Get_def)
next
  case (Returned res s2)
  with Get_checkout_extends[of s rl pl r ctx] have "extends s s2" by simp
  then show ?thesis using Get_after_checkout[OF Returned] by (rule extends_trans)
next
  case (Blocked s')
  with Get_checkout_extends[of s rl pl r ctx] show ?thesis
    by (simp add: Get_def)
qed

lemma Put_extends: "extends s (result_state (Put pl r cn s))"
  by (auto simp: Put_def split: option.splits prod.splits)

lemma Redis_extends: "extends s (result_state (Redis Default name s))"
  by (auto simp: Redis_def logger_Panic_def split: option.splits)

lemma r_pool_world [simp]: "r_pool (s\<lparr>world := w\<rparr>) r = r_pool s r"
  by (simp add: r_pool_def split: option.splits)

lemma Get_Returned_r_pool:
  assumes "Get rl pl r ctx s = Returned x s'"
  shows "\<exists>p po. r_pool s' r = Some (p, po)"
proof (cases "Get_checkout rl pl r ctx s")
  case (Panicked e s2)
  with assms show ?thesis by (simp add: Get_def)
next
  case (Returned res s2)
  from Get_checkout_r_pool[OF Returned] obtain p po where rp: "r_pool s2 r = Some (p, po)"
    by blast
  then have "\<And>w q po'. \<exists>p po. r_pool (s2\<lparr>world := w, pools := (pools s2)[q := po']\<rparr>) r = Some (p, po)"
    by (auto simp: r_pool_eq_Some)
  with assms Returned rp show ?thesis
    by (auto simp: Get_def alloc_def split: option.splits prod.splits result.splits if_splits)
next
  case (Blocked s2)
  with assms show ?thesis by (simp add: Get_def)
qed

lemma Get_extends_cases:
  "Get rl pl r ctx s = Returned x s' \<Longrightarrow> extends s s'"
  "Get rl pl r ctx s = Panicked e s' \<Longrightarrow> extends s s'"
  "Get rl pl r ctx s = Blocked s' \<Longrightarrow> extends s s'"
  using Get_extends[of s rl pl r ctx] by simp_all

lemma Put_extends_cases:
  "Put pl r cn s = Returned u s' \<Longrightarrow> extends s s'"
  "Put pl r cn s = Panicked e s' \<Longrightarrow> extends s s'"
  "Put pl r cn s = Blocked s' \<Longrightarrow> extends s s'"
  using Put_extends[of s pl r cn] by simp_all

section \<open>Construction and lookup\<close>

lemma newRedis_construct:
  fixes s :: "('n, 'p) state" and addr :: string and options :: "RedisOption list"
  defines "asked \<equiv> apply_options (default_setting addr) options"
  defines "lim \<equiv> (if limit (pool_cfg asked) < size' (pool_cfg asked)
                   then size' (pool_cfg asked) else limit (pool_cfg asked))"
  defines "cfg \<equiv> asked\<lparr>pool_cfg := (pool_cfg asked)\<lparr>limit := lim\<rparr>\<rparr>"
  shows "case NewResourcePool pl (df rl cfg) (size' (pool_cfg asked)) lim
                (idleTimeout (pool_cfg asked)) (prefill (pool_cfg asked)) (world s) of
           Panicked e w' \<Rightarrow> newRedis rl pl addr options s = Panicked e (s\<lparr>world := w'\<rparr>)
         | Returned po w' \<Rightarrow>
             newRedis rl pl addr options s =
               Returned (length (insts s))
                 (s\<lparr>world := w', pools := pools s @ [po],
                    insts := insts s @ [\<lparr>config = cfg, pool = Some (length (pools s))\<rparr>]\<rparr>)
         | Blocked w' \<Rightarrow> newRedis rl pl addr options s = Blocked (s\<lparr>world := w'\<rparr>)"
proof -
  let ?s0 = "s\<lparr>insts := insts s @ [\<lparr>config = cfg, pool = None\<rparr>]\<rparr>"
  have a: "absent_or_closed pl ?s0 (length (insts s))"
    by (simp add: absent_or_closed_def deref_Some_iff)
  have c: "cfg = (if limit (pool_cfg asked) < size' (pool_cfg asked)
                  then asked\<lparr>pool_cfg := (pool_cfg asked)\<lparr>limit := size' (pool_cfg asked)\<rparr>\<rparr>
                  else asked)"
    by (simp add: cfg_def lim_def)
  have n: "newRedis rl pl addr options s =
            (case init rl pl (length (insts s)) ?s0 of
               Panicked e s' \<Rightarrow> Panicked e (s'\<lparr>insts := insts s\<rparr>)
             | Returned u s1 \<Rightarrow> Returned (length (insts s)) s1
             | Blocked s' \<Rightarrow> Blocked (s'\<lparr>insts := insts s\<rparr>))"
    unfolding newRedis_def Let_def c asked_def by simp
  have p: "pool_cfg cfg = (pool_cfg asked)\<lparr>limit := lim\<rparr>"
    by (simp add: cfg_def)
  from init_construct[OF a, of rl] show ?thesis
    unfolding n by (auto simp: p split: result.splits)
qed

lemma newRedis_outcome:
  "case newRedis rl pl addr options s of
     Panicked e s' \<Rightarrow> extends s s'
   | Returned rp s1 \<Rightarrow>
       rp = length (insts s) \<and> length (insts s1) = Suc (length (insts s))
       \<and> redisMap s1 = redisMap s \<and> defaultRedis s1 = defaultRedis s
       \<and> (pools_ok s \<longrightarrow> pools_ok s1)
       \<and> pool (insts s1 ! rp) = Some (length (pools s))
       \<and> length (pools s1) = Suc (length (pools s))
   | Blocked s' \<Rightarrow> extends s s'"
  using newRedis_construct[where pl=pl and rl=rl and addr=addr and options=options and s=s]
  by (auto simp: pools_ok_def nth_append less_Suc_eq split: result.splits)

text \<open>
  C7, as stated, fails: with a size that is not positive the limit is raised to the size,
  and the constructor of the generic pool then panics.
\<close>

theorem newRedis_negative_size_counterexample:
  "limit (pool_cfg (apply_options (default_setting ''127.0.0.1:6379'') negative_size))
     < size' (pool_cfg (apply_options (default_setting ''127.0.0.1:6379'') negative_size))
   \<and> newRedis (sim_redigo True) sim_vitess ''127.0.0.1:6379'' negative_size (start [])
       = Panicked (ErrorPanic ''invalid/out of range capacity'') (start [])"
  by (simp add: run_defs)

text \<open>
  C7, amended. \<^verbatim>\<open>newRedis\<close> raises a limit below the size to the size, without an error of
  its own, before it constructs the generic pool: the constructor is called with the
  configured size and with the configured limit or, when that is smaller, the size; and
  \<^verbatim>\<open>newRedis\<close> does as the constructor does. It panics when the constructor panics; when the
  constructor returns a pool, it returns a new instance that holds this sizing and the
  pool. So the limit of an instance that \<^verbatim>\<open>newRedis\<close> returns is never below its size.
\<close>

theorem newRedis_raises_limit_to_size:
  "let asked = pool_cfg (apply_options (default_setting addr) options);
       lim = (if limit asked < size' asked then size' asked else limit asked);
       cfg = (apply_options (default_setting addr) options)\<lparr>pool_cfg := asked\<lparr>limit := lim\<rparr>\<rparr>
   in size' asked \<le> lim
      \<and> (case NewResourcePool pl (df rl cfg) (size' asked) lim (idleTimeout asked)
                 (prefill asked) (world s) of
            Panicked e w' \<Rightarrow> newRedis rl pl addr options s = Panicked e (s\<lparr>world := w'\<rparr>)
          | Returned po w' \<Rightarrow>
              newRedis rl pl addr options s =
                Returned (length (insts s))
                  (s\<lparr>world := w', pools := pools s @ [po],
                     insts := insts s @ [\<lparr>config = cfg, pool = Some (length (pools s))\<rparr>]\<rparr>)
          | Blocked w' \<Rightarrow> newRedis rl pl addr options s = Blocked (s\<lparr>world := w'\<rparr>))
      \<and> (\<forall>rp s1. newRedis rl pl addr options s = Returned rp s1 \<longrightarrow>
            size' (pool_cfg (config (insts s1 ! rp))) = size' asked
            \<and> limit (pool_cfg (config (insts s1 ! rp))) = lim
            \<and> size' (pool_cfg (config (insts s1 ! rp))) \<le> limit (pool_cfg (config (insts s1 ! rp))))"
proof -
  define given where "given = apply_options (default_setting addr) options"
  define lim where "lim = (if limit (pool_cfg given) < size' (pool_cfg given)
                            then size' (pool_cfg given) else limit (pool_cfg given))"
  define cfg where "cfg = given\<lparr>pool_cfg := (pool_cfg given)\<lparr>limit := lim\<rparr>\<rparr>"
  let ?s0 = "s\<lparr>insts := insts s @ [\<lparr>config = cfg, pool = None\<rparr>]\<rparr>"
  have c: "cfg = (if limit (pool_cfg given) < size' (pool_cfg given)
                  then given\<lparr>pool_cfg := (pool_cfg given)\<lparr>limit := size' (pool_cfg given)\<rparr>\<rparr>
                  else given)"
    by (simp add: cfg_def lim_def)
  have p: "pool_cfg cfg = (pool_cfg given)\<lparr>limit := lim\<rparr>"
    by (simp add: cfg_def)
  have le: "size' (pool_cfg given) \<le> lim"
    by (simp add: lim_def)
  have a: "absent_or_closed pl ?s0 (length (insts s))"
    by (simp add: absent_or_closed_def deref_Some_iff)
  have n: "newRedis rl pl addr options s =
            (case init rl pl (length (insts s)) ?s0 of
               Panicked e s' \<Rightarrow> Panicked e (s'\<lparr>insts := insts s\<rparr>)
             | Returned u s1 \<Rightarrow> Returned (length (insts s)) s1
             | Blocked s' \<Rightarrow> Blocked (s'\<lparr>insts := insts s\<rparr>))"
    unfolding newRedis_def Let_def c given_def by simp
  have main: "case NewResourcePool pl (df rl cfg) (size' (pool_cfg given)) lim
                (idleTimeout (pool_cfg given)) (prefill (pool_cfg given)) (world s) of
           Panicked e w' \<Rightarrow> newRedis rl pl addr options s = Panicked e (s\<lparr>world := w'\<rparr>)
         | Returned po w' \<Rightarrow>
             newRedis rl pl addr options s =
               Returned (length (insts s))
                 (s\<lparr>world := w', pools := pools s @ [po],
                    insts := insts s @ [\<lparr>config = cfg, pool = Some (length (pools s))\<rparr>]\<rparr>)
         | Blocked w' \<Rightarrow> newRedis rl pl addr options s = Blocked (s\<lparr>world := w'\<rparr>)"
    using init_construct[OF a, of rl] unfolding n by (auto simp: p split: result.splits)
  have ret: "\<forall>rp s1. newRedis rl pl addr options s = Returned rp s1 \<longrightarrow>
            size' (pool_cfg (config (insts s1 ! rp))) = size' (pool_cfg given)
            \<and> limit (pool_cfg (config (insts s1 ! rp))) = lim
            \<and> size' (pool_cfg (config (insts s1 ! rp))) \<le> limit (pool_cfg (config (insts s1 ! rp)))"
    using main le by (auto simp: p split: result.splits)
  from le main ret show ?thesis
    unfolding Let_def cfg_def lim_def given_def by (intro conjI)
qed

theorem newRedis_raises_limit_to_size_witness:
  "limit (pool_cfg (apply_options (default_setting ''127.0.0.1:6379'') low_limit)) = 5
   \<and> size' (pool_cfg (apply_options (default_setting ''127.0.0.1:6379'') low_limit)) = 20
   \<and> (\<exists>s'. newRedis (sim_redigo True) sim_vitess ''127.0.0.1:6379'' low_limit (start [])
              = Returned 0 s'
         \<and> size' (pool_cfg (config (insts s' ! 0))) = 20
         \<and> limit (pool_cfg (config (insts s' ! 0))) = 20
         \<and> capacity (pools s' ! 0) = 20 \<and> maxCap (pools s' ! 0) = 20)"
proof -
  have a: "limit (pool_cfg (apply_options (default_setting ''127.0.0.1:6379'') low_limit)) = 5"
    "size' (pool_cfg (apply_options (default_setting ''127.0.0.1:6379'') low_limit)) = 20"
    "idleTimeout (pool_cfg (apply_options (default_setting ''127.0.0.1:6379'') low_limit)) = 60 * Second"
    "prefill (pool_cfg (apply_options (default_setting ''127.0.0.1:6379'') low_limit)) = 0"
    by (simp_all add: apply_options_def default_setting_def low_limit_def WithRedisPool_def)
  from newRedis_raises_limit_to_size[where addr="''127.0.0.1:6379''" and options=low_limit
         and pl=sim_vitess and rl="sim_redigo True" and s="start []"]
  have "\<exists>s'. newRedis (sim_redigo True) sim_vitess ''127.0.0.1:6379'' low_limit (start [])
              = Returned 0 s'
         \<and> size' (pool_cfg (config (insts s' ! 0))) = 20
         \<and> limit (pool_cfg (config (insts s' ! 0))) = 20
         \<and> capacity (pools s' ! 0) = 20 \<and> maxCap (pools s' ! 0) = 20"
    by (simp add: Let_def a sim_vitess_def sim_NewResourcePool_def start_def)
  with a show ?thesis by simp
qed

text \<open>
  C6. In every state of the registry, \<^verbatim>\<open>Redis()\<close> and \<^verbatim>\<open>Redis(Default)\<close> have the same
  outcome: the same instance, or the same panic when no default instance is registered.
\<close>

theorem Redis_without_name_is_Redis_Default:
  "Redis Default [] s = Redis Default [Default] s"
  by (simp add: Redis_def)

theorem Redis_without_name_is_Redis_Default_witness:
  "Redis ''default'' [] booted = Redis ''default'' [''default''] booted
   \<and> result_value (Redis ''default'' [] booted) = Some 0"
  using Redis_without_name_is_Redis_Default[of "''default''" booted]
  by (simp add: Redis_def booted_eval)

section \<open>Bootstrap\<close>

lemma newRedis_Returned_registry:
  assumes "newRedis rl pl addr options s = Returned rp s1"
  shows "rp = length (insts s)" "length (insts s1) = Suc (length (insts s))"
    "redisMap s1 = redisMap s" "defaultRedis s1 = defaultRedis s"
    "pools_ok s \<longrightarrow> pools_ok s1" "pool (insts s1 ! rp) = Some (length (pools s))"
  using newRedis_outcome[where rl=rl and pl=pl and addr=addr and options=options and s=s] assms by auto

lemma initRedis_outcome:
  "case initRedis rl pl Default name addr options s of
     Panicked e s' \<Rightarrow>
       length (insts s) \<le> length (insts s') \<and> redisMap s' = redisMap s
       \<and> defaultRedis s' = defaultRedis s \<and> (pools_ok s \<longrightarrow> pools_ok s')
   | Returned u s' \<Rightarrow>
       length (insts s') = Suc (length (insts s))
       \<and> redisMap s' = (redisMap s)(name \<mapsto> length (insts s))
       \<and> defaultRedis s' = (if name = Default then Some (length (insts s)) else defaultRedis s)
       \<and> (pools_ok s \<longrightarrow> pools_ok s')
   | Blocked s' \<Rightarrow>
       length (insts s) \<le> length (insts s') \<and> redisMap s' = redisMap s
       \<and> defaultRedis s' = defaultRedis s \<and> (pools_ok s \<longrightarrow> pools_ok s')"
proof (cases "newRedis rl pl addr options s")
  case (Panicked e s')
  with newRedis_outcome[where rl=rl and pl=pl and addr=addr and options=options and s=s] show ?thesis
    by (simp add: initRedis_def extends_def)
next
  case (Blocked s')
  with newRedis_outcome[where rl=rl and pl=pl and addr=addr and options=options and s=s] show ?thesis
    by (simp add: initRedis_def extends_def)
next
  case (Returned rp s1)
  note s1 = newRedis_Returned_registry[OF Returned]
  show ?thesis
    using s1
    by (auto simp: initRedis_def Returned Let_def logger_Panic_def logger_Info_def extends_def
               pools_ok_def
             split: result.splits option.splits prod.splits
             dest!: Get_extends_cases Put_extends_cases)
qed

text \<open>
  C8. When \<^verbatim>\<open>newRedis\<close> panics, so does \<^verbatim>\<open>initRedis\<close>. When it returns the instance (whose
  pool reference it has set), \<^verbatim>\<open>initRedis\<close> asks the instance for a connection. If \<^verbatim>\<open>Get\<close>
  returns an error, or if the one \<^verbatim>\<open>PING\<close> sent on the connection returns an error,
  \<^verbatim>\<open>initRedis\<close> panics through the logger and the registry is as before. If both succeed, the
  connection goes back into the generic pool of the instance by the pool's \<^verbatim>\<open>Put\<close>, the
  instance is stored under its name, and as the default when the name is the reserved one,
  and the last thing done is the log entry \<^verbatim>\<open>redis.<name> is OK\<close>: the state that
  \<^verbatim>\<open>initRedis\<close> returns is the state after the \<^verbatim>\<open>PING\<close> with exactly these changes.
  \<^verbatim>\<open>initRedis\<close> returns in no other case.
\<close>

theorem initRedis_probes_then_registers:
  "(\<forall>e s'. newRedis rl pl addr options s = Panicked e s' \<longrightarrow>
       initRedis rl pl Default name addr options s = Panicked e s')
   \<and> (\<forall>rp s1. newRedis rl pl addr options s = Returned rp s1 \<longrightarrow>
        pool (insts s1 ! rp) \<noteq> None
        \<and> (\<forall>cn e s2. Get rl pl rp TODO s1 = Returned (cn, Some e) s2 \<longrightarrow>
              (\<exists>s'. initRedis rl pl Default name addr options s
                      = Panicked (ZapPanic ''yiigo: redis init error'') s'
                   \<and> redisMap s' = redisMap s \<and> defaultRedis s' = defaultRedis s))
        \<and> (\<forall>cn s2 c h reply e n3.
              Get rl pl rp TODO s1 = Returned (cn, None) s2
              \<and> deref (heap (world s2)) cn = Some c \<and> Conn c = Some h
              \<and> conn_Do rl h ''PING'' (net (world s2)) = ((reply, Some e), n3) \<longrightarrow>
              (\<exists>s'. initRedis rl pl Default name addr options s
                      = Panicked (ZapPanic ''yiigo: redis init error'') s'
                   \<and> redisMap s' = redisMap s \<and> defaultRedis s' = defaultRedis s))
        \<and> (\<forall>cn s2 c h reply n3.
              Get rl pl rp TODO s1 = Returned (cn, None) s2
              \<and> deref (heap (world s2)) cn = Some c \<and> Conn c = Some h
              \<and> conn_Do rl h ''PING'' (net (world s2)) = ((reply, None), n3) \<longrightarrow>
              (\<exists>p po po' w5.
                 r_pool s2 rp = Some (p, po)
                 \<and> pool_Put pl po (Some cn) ((world s2)\<lparr>net := n3\<rparr>) = (po', w5)
                 \<and> initRedis rl pl Default name addr options s
                     = Returned ()
                         (s2\<lparr>world := logger_Info (''yiigo: redis.'' @ name @ '' is OK'') w5,
                             pools := (pools s2)[p := po'],
                             defaultRedis := (if name = Default then Some rp else defaultRedis s),
                             redisMap := (redisMap s)(name \<mapsto> rp)\<rparr>))))
   \<and> (\<forall>s'. initRedis rl pl Default name addr options s = Returned () s' \<longrightarrow>
         (\<exists>rp s1 cn s2 c h reply n3.
            newRedis rl pl addr options s = Returned rp s1
            \<and> Get rl pl rp TODO s1 = Returned (cn, None) s2
            \<and> deref (heap (world s2)) cn = Some c \<and> Conn c = Some h
            \<and> conn_Do rl h ''PING'' (net (world s2)) = ((reply, None), n3)))"
proof -
  have n0: "initRedis rl pl Default name addr options s = Panicked e s'"
    if "newRedis rl pl addr options s = Panicked e s'" for e s'
    using that by (simp add: initRedis_def)
  have p1: "pool (insts s1 ! rp) \<noteq> None"
    if "newRedis rl pl addr options s = Returned rp s1" for rp s1
    using newRedis_Returned_registry(6)[OF that] by simp
  have a: "\<exists>s'. initRedis rl pl Default name addr options s
                   = Panicked (ZapPanic ''yiigo: redis init error'') s'
                \<and> redisMap s' = redisMap s \<and> defaultRedis s' = defaultRedis s"
    if n: "newRedis rl pl addr options s = Returned rp s1"
      and g: "Get rl pl rp TODO s1 = Returned (cn, Some e) s2" for rp s1 cn e s2
    using g newRedis_Returned_registry(3,4)[OF n] Get_extends_cases(1)[OF g]
    by (simp add: initRedis_def n logger_Panic_def extends_def)
  have b: "\<exists>s'. initRedis rl pl Default name addr options s
                   = Panicked (ZapPanic ''yiigo: redis init error'') s'
                \<and> redisMap s' = redisMap s \<and> defaultRedis s' = defaultRedis s"
    if n: "newRedis rl pl addr options s = Returned rp s1"
      and g: "Get rl pl rp TODO s1 = Returned (cn, None) s2"
      and d: "deref (heap (world s2)) cn = Some c" "Conn c = Some h"
      and pg: "conn_Do rl h ''PING'' (net (world s2)) = ((reply, Some e), n3)"
    for rp s1 cn s2 c h reply e n3
  proof -
    obtain cerr n4 where cl: "conn_Close rl h n3 = (cerr, n4)"
      by (cases "conn_Close rl h n3")
    from d have "deref (heap ((world s2)\<lparr>net := n3\<rparr>)) cn = Some c" by simp
    from RedisConn_Close_holds[OF this d(2), of rl cerr n4] cl
    show ?thesis
      using g d pg newRedis_Returned_registry(3,4)[OF n] Get_extends_cases(1)[OF g]
      by (simp add: initRedis_def n logger_Panic_def extends_def Let_def)
  qed
  have c: "\<exists>p po po' w5.
                 r_pool s2 rp = Some (p, po)
                 \<and> pool_Put pl po (Some cn) ((world s2)\<lparr>net := n3\<rparr>) = (po', w5)
                 \<and> initRedis rl pl Default name addr options s
                     = Returned ()
                         (s2\<lparr>world := logger_Info (''yiigo: redis.'' @ name @ '' is OK'') w5,
                             pools := (pools s2)[p := po'],
                             defaultRedis := (if name = Default then Some rp else defaultRedis s),
                             redisMap := (redisMap s)(name \<mapsto> rp)\<rparr>)"
    if n: "newRedis rl pl addr options s = Returned rp s1"
      and g: "Get rl pl rp TODO s1 = Returned (cn, None) s2"
      and d: "deref (heap (world s2)) cn = Some c" "Conn c = Some h"
      and pg: "conn_Do rl h ''PING'' (net (world s2)) = ((reply, None), n3)"
    for rp s1 cn s2 c h reply n3
  proof -
    from Get_Returned_r_pool[OF g] obtain p po where rp: "r_pool s2 rp = Some (p, po)" by blast
    obtain po' w5 where pp: "pool_Put pl po (Some cn) ((world s2)\<lparr>net := n3\<rparr>) = (po', w5)"
      by (cases "pool_Put pl po (Some cn) ((world s2)\<lparr>net := n3\<rparr>)")
    from Get_extends_cases(1)[OF g] newRedis_Returned_registry(3,4)[OF n]
    have reg: "redisMap s2 = redisMap s" "defaultRedis s2 = defaultRedis s"
      by (simp_all add: extends_def)
    have "initRedis rl pl Default name addr options s
                     = Returned ()
                         (s2\<lparr>world := logger_Info (''yiigo: redis.'' @ name @ '' is OK'') w5,
                             pools := (pools s2)[p := po'],
                             defaultRedis := (if name = Default then Some rp else defaultRedis s),
                             redisMap := (redisMap s)(name \<mapsto> rp)\<rparr>)"
      using g d pg rp pp reg
      by (simp add: initRedis_def n Let_def Put_def)
    with rp pp show ?thesis by blast
  qed
  have r: "\<exists>rp s1 cn s2 c h reply n3.
            newRedis rl pl addr options s = Returned rp s1
            \<and> Get rl pl rp TODO s1 = Returned (cn, None) s2
            \<and> deref (heap (world s2)) cn = Some c \<and> Conn c = Some h
            \<and> conn_Do rl h ''PING'' (net (world s2)) = ((reply, None), n3)"
    if "initRedis rl pl Default name addr options s = Returned () s'" for s'
    using that
    by (auto simp: initRedis_def Let_def logger_Panic_def
             split: result.splits option.splits prod.splits)
  show ?thesis
    apply (intro allI impI conjI)
    subgoal by (rule n0)
    subgoal by (rule p1)
    subgoal by (rule a)
    subgoal by (elim conjE) (rule b)
    subgoal by (elim conjE) (rule c)
    subgoal by (rule r)
    done
qed

theorem initRedis_probes_then_registers_witness:
  "(\<exists>s'. initRedis (sim_redigo True) sim_vitess ''default'' ''default'' ''127.0.0.1:6379'' one_conn
            (start []) = Returned () s'
        \<and> resources (pools s' ! 0) = [Some (Some 0)]
        \<and> redisMap s' ''default'' = Some 0 \<and> defaultRedis s' = Some 0
        \<and> last (logs (world s')) = (InfoLevel, ''yiigo: redis.default is OK'', []))
   \<and> (\<exists>s'. initRedis (sim_redigo False) sim_vitess ''default'' ''default'' ''127.0.0.1:6379'' one_conn
            (start []) = Panicked (ZapPanic ''yiigo: redis init error'') s'
        \<and> redisMap s' ''default'' = None \<and> defaultRedis s' = None)
   \<and> initRedis (sim_redigo True) sim_vitess ''default'' ''default'' ''127.0.0.1:6379''
        negative_size (start [])
       = Panicked (ErrorPanic ''invalid/out of range capacity'') (start [])"
proof -
  have up: "\<exists>s'. initRedis (sim_redigo True) sim_vitess ''default'' ''default'' ''127.0.0.1:6379''
              one_conn (start []) = Returned () s'
        \<and> resources (pools s' ! 0) = [Some (Some 0)]
        \<and> redisMap s' ''default'' = Some 0 \<and> defaultRedis s' = Some 0
        \<and> last (logs (world s')) = (InfoLevel, ''yiigo: redis.default is OK'', [])"
  proof -
    define s1 where "s1 = result_state (newRedis (sim_redigo True) sim_vitess ''127.0.0.1:6379''
                                          one_conn (start ([] :: error list)))"
    define s2 where "s2 = result_state (Get (sim_redigo True) sim_vitess 0 TODO s1)"
    have n: "newRedis (sim_redigo True) sim_vitess ''127.0.0.1:6379'' one_conn (start []) = Returned 0 s1"
      unfolding s1_def by (simp add: run_defs)
    have g: "Get (sim_redigo True) sim_vitess 0 TODO s1 = Returned (Some 0, None) s2"
      unfolding s2_def s1_def by (simp add: run_defs)
    have w: "world s2 = \<lparr>net = [None], heap = [\<lparr>Conn = Some 0\<rparr>], logs = []\<rparr>"
      unfolding s2_def s1_def by (simp add: run_defs)
    have q: "length (pools s2) = 1" "resources (pools s2 ! 0) = []" "capacity (pools s2 ! 0) = 1"
       "maxCap (pools s2 ! 0) = 1" "length (insts s2) = 1" "pool (insts s2 ! 0) = Some 0"
      unfolding s2_def s1_def by (simp_all add: run_defs)
    have d1: "deref (heap (world s2)) (Some 0) = Some \<lparr>Conn = Some 0\<rparr>"
      by (simp add: w deref_Some_iff)
    have d2: "Conn \<lparr>Conn = Some 0\<rparr> = Some 0"
      by simp
    have pg: "conn_Do (sim_redigo True) 0 ''PING'' (net (world s2)) = ((''PONG'', None), [None])"
      by (simp add: w sim_redigo_def conn_state_def)
    note T = initRedis_probes_then_registers[where rl="sim_redigo True" and pl=sim_vitess
           and addr="''127.0.0.1:6379''" and options=one_conn and s="start []"
           and name="''default''" and Default="''default''"]
    note M = T[THEN conjunct2, THEN conjunct1, rule_format, OF n]
    note C = M[THEN conjunct2, THEN conjunct2, THEN conjunct2, rule_format,
               OF conjI[OF g conjI[OF d1 conjI[OF d2 pg]]]]
    from C obtain p po po' w5 where rp: "r_pool s2 0 = Some (p, po)"
      and pp: "pool_Put sim_vitess po (Some (Some 0)) ((world s2)\<lparr>net := [None]\<rparr>) = (po', w5)"
      and i: "initRedis (sim_redigo True) sim_vitess ''default'' ''default'' ''127.0.0.1:6379''
                one_conn (start [])
              = Returned ()
                  (s2\<lparr>world := logger_Info (''yiigo: redis.'' @ ''default'' @ '' is OK'') w5,
                      pools := (pools s2)[p := po'],
                      defaultRedis := (if ''default'' = ''default'' then Some 0
                                       else defaultRedis
                                              (start [] :: (error list, (error list) sim_pool) state)),
                      redisMap := (redisMap
                                     (start [] :: (error list, (error list) sim_pool) state))
                                    (''default'' \<mapsto> 0)\<rparr>)"
      by blast
    from rp have p: "p = 0" "po = pools s2 ! 0"
      by (simp_all add: r_pool_eq_Some q)
    from pp p have "resources po' = [Some (Some 0)]" "w5 = (world s2)\<lparr>net := [None]\<rparr>"
      by (auto simp: sim_vitess_def sim_Put_def q)
    with i p q w show ?thesis
      by (simp add: logger_Info_def)
  qed
  have down: "\<exists>s'. initRedis (sim_redigo False) sim_vitess ''default'' ''default''
                ''127.0.0.1:6379'' one_conn (start [])
              = Panicked (ZapPanic ''yiigo: redis init error'') s'
        \<and> redisMap s' ''default'' = None \<and> defaultRedis s' = None"
  proof -
    define s1 where "s1 = result_state (newRedis (sim_redigo False) sim_vitess ''127.0.0.1:6379''
                                          one_conn (start ([] :: error list)))"
    define s2 where "s2 = result_state (Get (sim_redigo False) sim_vitess 0 TODO s1)"
    have n: "newRedis (sim_redigo False) sim_vitess ''127.0.0.1:6379'' one_conn (start []) = Returned 0 s1"
      unfolding s1_def by (simp add: run_defs)
    have g: "Get (sim_redigo False) sim_vitess 0 TODO s1
               = Returned (Some 0, Some ''connection refused'') s2"
      unfolding s2_def s1_def by (simp add: run_defs)
    note T = initRedis_probes_then_registers[where rl="sim_redigo False" and pl=sim_vitess
           and addr="''127.0.0.1:6379''" and options=one_conn and s="start []"
           and name="''default''" and Default="''default''"]
    note M = T[THEN conjunct2, THEN conjunct1, rule_format, OF n]
    note A = M[THEN conjunct2, THEN conjunct1, rule_format, OF g]
    from A
    have "\<exists>s'. initRedis (sim_redigo False) sim_vitess ''default'' ''default''
                ''127.0.0.1:6379'' one_conn (start [])
              = Panicked (ZapPanic ''yiigo: redis init error'') s'
           \<and> redisMap s' = redisMap (start [] :: (error list, (error list) sim_pool) state)
           \<and> defaultRedis s' = defaultRedis (start [] :: (error list, (error list) sim_pool) state)"
      .
    then show ?thesis by (auto simp: start_def)
  qed
  have neg: "initRedis (sim_redigo True) sim_vitess ''default'' ''default'' ''127.0.0.1:6379''
        negative_size (start [])
       = Panicked (ErrorPanic ''invalid/out of range capacity'') (start [])"
  proof -
    have "newRedis (sim_redigo True) sim_vitess ''127.0.0.1:6379'' negative_size (start [])
            = Panicked (ErrorPanic ''invalid/out of range capacity'') (start [])"
      by (simp add: run_defs)
    from initRedis_probes_then_registers[where rl="sim_redigo True" and pl=sim_vitess
           and addr="''127.0.0.1:6379''" and options=negative_size and s="start []"
           and name="''default''" and Default="''default''", THEN conjunct1, rule_format, OF this]
    show ?thesis .
  qed
  from up down neg show ?thesis by blast
qed

section \<open>Reachable states\<close>

lemma extends_invariant:
  assumes "extends s s'" and "pools_ok s \<and> registry_ok Default N s"
  shows "pools_ok s' \<and> registry_ok Default N s'"
  using assms by (simp add: extends_def registry_ok_def)

lemma initRedis_invariant:
  assumes "pools_ok s \<and> registry_ok Default N s"
    and "x = initRedis rl pl Default name addr options s"
  shows "pools_ok (result_state x)
         \<and> registry_ok Default (if returned x then insert name N else N) (result_state x)"
proof (cases "initRedis rl pl Default name addr options s")
  case (Panicked e s')
  with initRedis_outcome[where rl=rl and pl=pl and Default=Default and name=name
         and addr=addr and options=options and s=s] assms(1)
  show ?thesis unfolding assms(2)
    by (auto simp: returned_def registry_ok_def) (meson less_le_trans)+
next
  case (Returned u s')
  with initRedis_outcome[where rl=rl and pl=pl and Default=Default and name=name
         and addr=addr and options=options and s=s] assms(1)
  show ?thesis unfolding assms(2)
    by (auto simp: returned_def registry_ok_def less_Suc_eq)
next
  case (Blocked s')
  with initRedis_outcome[where rl=rl and pl=pl and Default=Default and name=name
         and addr=addr and options=options and s=s] assms(1)
  show ?thesis unfolding assms(2)
    by (auto simp: returned_def registry_ok_def) (meson less_le_trans)+
qed

lemma reach_invariant:
  assumes "reach rl pl Default N s"
  shows "pools_ok s \<and> registry_ok Default N s"
  using assms
proof (induction rule: reach.induct)
  case (at_start n)
  show ?case by (simp add: pools_ok_def registry_ok_def start_def)
next
  case (after_initRedis N s x name addr options)
  from after_initRedis.IH after_initRedis.hyps(2) show ?case by (rule initRedis_invariant)
next
  case (after_Get N s r ctx)
  from Get_extends after_Get.IH show ?case by (rule extends_invariant)
next
  case (after_Put N s r cn)
  from Put_extends after_Put.IH show ?case by (rule extends_invariant)
next
  case (after_Redis N s name)
  from Redis_extends after_Redis.IH show ?case by (rule extends_invariant)
next
  case (after_world N s w)
  from extends_world after_world.IH show ?case by (rule extends_invariant)
qed

lemma reach_booted: "reach (sim_redigo True) sim_vitess ''default'' {''default''} booted"
proof -
  let ?x = "initRedis (sim_redigo True) sim_vitess ''default'' ''default'' ''127.0.0.1:6379''
              one_conn (start [])"
  have "reach (sim_redigo True) sim_vitess ''default''
          (if returned ?x then insert ''default'' {} else {}) (result_state ?x)"
    by (rule after_initRedis[OF at_start refl])
  moreover have "returned ?x"
    by (simp add: returned_def run_defs)
  ultimately show ?thesis
    by (simp add: booted_def)
qed

text \<open>
  C5. In a reachable state, a lookup panics through the logger, and so returns no pool,
  whenever its key was never registered: \<^verbatim>\<open>Redis()\<close> and \<^verbatim>\<open>Redis(Default, ...)\<close> when no
  bootstrap of the default name has returned, \<^verbatim>\<open>Redis(name, ...)\<close> when no bootstrap of
  \<open>name\<close> has returned. (\<^verbatim>\<open>Redis\<close> has no error result: it returns a pool or panics.)
\<close>

theorem Redis_unregistered_panics:
  assumes "reach rl pl Default N s"
  shows "(Default \<notin> N \<longrightarrow>
            (\<forall>name. name = [] \<or> hd name = Default \<longrightarrow>
               (\<exists>m s'. Redis Default name s = Panicked (ZapPanic m) s')))
         \<and> (\<forall>name. name \<noteq> [] \<and> hd name \<notin> N \<longrightarrow>
               (\<exists>m s'. Redis Default name s = Panicked (ZapPanic m) s'))"
proof -
  from reach_invariant[OF assms] have reg: "registry_ok Default N s" ..
  then have d: "Default \<notin> N \<Longrightarrow> defaultRedis s = None"
    and m: "\<And>n. n \<notin> N \<Longrightarrow> redisMap s n = None"
    by (auto simp: registry_ok_def)
  show ?thesis
  proof (intro conjI allI impI)
    fix name :: "string list"
    assume "Default \<notin> N" and "name = [] \<or> hd name = Default"
    with d show "\<exists>m s'. Redis Default name s = Panicked (ZapPanic m) s'"
      by (auto simp: Redis_def logger_Panic_def hd_conv_nth)
  next
    fix name :: "string list"
    assume a: "name \<noteq> [] \<and> hd name \<notin> N"
    then have "name ! 0 \<notin> N" by (auto simp: hd_conv_nth)
    then have "redisMap s (name ! 0) = None" by (rule m)
    moreover from \<open>name ! 0 \<notin> N\<close> d have "name ! 0 = Default \<Longrightarrow> defaultRedis s = None"
      by auto
    ultimately show "\<exists>m s'. Redis Default name s = Panicked (ZapPanic m) s'"
      using a by (auto simp: Redis_def logger_Panic_def)
  qed
qed

theorem Redis_unregistered_panics_witness:
  "reach (sim_redigo True) sim_vitess ''default'' {''default''} booted
   \<and> ''cache1'' \<notin> {''default''}
   \<and> (\<exists>m s'. Redis ''default'' [''cache1''] booted = Panicked (ZapPanic m) s')
   \<and> (\<exists>m s'. Redis ''default'' [] (start []
          :: (error list, (error list) sim_pool) state) = Panicked (ZapPanic m) s')"
proof -
  have r0: "reach (sim_redigo True) sim_vitess ''default'' {}
              (start [] :: (error list, (error list) sim_pool) state)"
    by (rule at_start)
  have 1: "\<exists>m s'. Redis ''default'' [''cache1''] booted = Panicked (ZapPanic m) s'"
    using Redis_unregistered_panics[OF reach_booted] by simp
  have 2: "\<exists>m s'. Redis ''default'' [] (start []
          :: (error list, (error list) sim_pool) state) = Panicked (ZapPanic m) s'"
    using Redis_unregistered_panics[OF r0] by simp
  from reach_booted 1 2 show ?thesis by simp
qed

text \<open>
  C10. In a reachable state every instance has a non-nil \<^verbatim>\<open>pool\<close> field that points to a
  pool object, so that \<^verbatim>\<open>r.pool.IsClosed()\<close> in \<^verbatim>\<open>Get\<close> has a pool to ask and \<^verbatim>\<open>init\<close> is
  re-run for a closed pool only; an instance that \<^verbatim>\<open>newRedis\<close> returns has its pool set;
  and so has every instance that a lookup returns.
\<close>

theorem reachable_instances_have_pool:
  assumes "reach rl pl Default N s"
  shows "(\<forall>r < length (insts s).
            pool (insts s ! r) \<noteq> None
            \<and> (\<exists>p po. r_pool s r = Some (p, po))
            \<and> (absent_or_closed pl s r \<longrightarrow> (\<exists>p po. r_pool s r = Some (p, po) \<and> IsClosed pl po)))
         \<and> (\<forall>name r s'. Redis Default name s = Returned r s' \<longrightarrow>
               (\<exists>p po. r_pool s' r = Some (p, po)))
         \<and> (\<forall>addr options rp s1.
               newRedis rl pl addr options s = Returned rp s1 \<longrightarrow>
               pool (insts s1 ! rp) \<noteq> None \<and> (\<exists>p po. r_pool s1 rp = Some (p, po)))"
proof -
  from reach_invariant[OF assms] have po: "pools_ok s" and reg: "registry_ok Default N s"
    by simp_all
  from po have 1: "\<forall>r < length (insts s). \<exists>p po. r_pool s r = Some (p, po)"
    by (auto simp: pools_ok_def r_pool_eq_Some)
  then have inst: "\<forall>r < length (insts s).
            pool (insts s ! r) \<noteq> None
            \<and> (\<exists>p po. r_pool s r = Some (p, po))
            \<and> (absent_or_closed pl s r \<longrightarrow> (\<exists>p po. r_pool s r = Some (p, po) \<and> IsClosed pl po))"
    by (auto simp: r_pool_eq_Some absent_or_closed_def deref_Some_iff)
  have 2: "\<exists>p po. r_pool s' r = Some (p, po)" if "Redis Default name s = Returned r s'" for name r s'
  proof -
    from that have "s' = s" "r < length (insts s)"
      using reg by (auto simp: Redis_def logger_Panic_def registry_ok_def split: if_splits option.splits)
    with 1 show ?thesis by simp
  qed
  have 3: "pool (insts s1 ! rp) \<noteq> None \<and> (\<exists>p po. r_pool s1 rp = Some (p, po))"
    if n: "newRedis rl pl addr options s = Returned rp s1" for addr options rp s1
  proof -
    note f = newRedis_Returned_registry[OF n]
    from f(5) po have "pools_ok s1" by simp
    moreover from f(1,2) have "rp < length (insts s1)" by simp
    ultimately show ?thesis by (auto simp: pools_ok_def r_pool_eq_Some)
  qed
  from inst 2 3 show ?thesis by blast
qed

theorem reachable_instances_have_pool_witness:
  "reach (sim_redigo True) sim_vitess ''default'' {''default''} booted
   \<and> length (insts booted) = 1
   \<and> pool (insts booted ! 0) = Some 0
   \<and> Redis ''default'' [] booted = Returned 0 booted"
proof -
  have l: "length (insts booted) = 1"
    by (simp add: booted_eval)
  have g: "Redis ''default'' [] booted = Returned 0 booted"
    by (simp add: Redis_def booted_eval)
  from reachable_instances_have_pool[OF reach_booted] l
  have "\<exists>p po. r_pool booted 0 = Some (p, po)" by auto
  moreover have "length (pools booted) = 1"
    by (simp add: booted_eval)
  ultimately have "pool (insts booted ! 0) = Some 0"
    by (auto simp: r_pool_eq_Some)
  with reach_booted l g show ?thesis by simp
qed

end
